theory Spec2Isabelle
  imports Complex_Main "HOL-Library.AList"
begin

section \<open>Python values\<close>

text \<open>
  The handlers of \<^verbatim>\<open>main.py\<close> move three kinds of data around: request bodies decoded
  from JSON, documents read from the MongoDB collection, and the typed records of
  \<^verbatim>\<open>schemas.py\<close>. The first two are plain Python values; \<open>pyval\<close> is their universe.
  A Python \<open>dict\<close> keeps its keys in insertion order and holds each key once, so it is
  an association list whose keys are distinct (\<open>is_dict\<close>). A Python \<open>float\<close> is
  modelled by the rational it denotes (finite values only), a \<open>bytes\<close> object by the list
  of its byte values.
\<close>

record datetime =
  year :: nat
  month :: nat
  day :: nat
  hour :: nat
  minute :: nat
  second :: nat
  microsecond :: nat

datatype ObjectId = ObjectId (binary: "nat list")

datatype pyval =
    VNone
  | VBool bool
  | VInt int
  | VFloat rat
  | VStr string
  | VObjectId ObjectId
  | VDatetime datetime
  | VList "pyval list"
  | VDict "(string \<times> pyval) list"

type_synonym dict = "(string \<times> pyval) list"

definition is_dict :: "dict \<Rightarrow> bool" where
  "is_dict d = distinct (map fst d)"

subsection \<open>bson.ObjectId\<close>

text \<open>
  \<^verbatim>\<open>ObjectId(s)\<close> for a string \<open>s\<close> accepts exactly the strings of length 24 that
  \<^verbatim>\<open>bytes.fromhex\<close> can read and keeps the bytes read; \<^verbatim>\<open>str(oid)\<close> is
  \<^verbatim>\<open>binascii.hexlify\<close> of those bytes, which writes lower-case digits.
  \<^verbatim>\<open>bytes.fromhex\<close> reads two hexadecimal digits of either case per byte and skips
  ASCII whitespace in front of a pair. \<^verbatim>\<open>ObjectId.is_valid(s)\<close> is false for the empty
  string and otherwise says whether \<^verbatim>\<open>ObjectId(s)\<close> raises.
\<close>

definition hex_val :: "char \<Rightarrow> nat option" where
  "hex_val c =
     (let n = (of_char c :: nat) in
      if 48 \<le> n \<and> n \<le> 57 then Some (n - 48)
      else if 97 \<le> n \<and> n \<le> 102 then Some (n - 87)
      else if 65 \<le> n \<and> n \<le> 70 then Some (n - 55)
      else None)"

definition is_space :: "char \<Rightarrow> bool" where
  "is_space c = ((of_char c :: nat) \<in> {9, 10, 11, 12, 13, 32})"

fun fromhex :: "string \<Rightarrow> nat list option" where
  "fromhex [] = Some []"
| "fromhex (c # cs) =
     (if is_space c then fromhex cs
      else case hex_val c of
        None \<Rightarrow> None
      | Some hi \<Rightarrow>
          (case cs of
             [] \<Rightarrow> None
           | d # ds \<Rightarrow>
               (case hex_val d of
                  None \<Rightarrow> None
                | Some lo \<Rightarrow> map_option ((#) (hi * 16 + lo)) (fromhex ds))))"

definition hex_digit :: "nat \<Rightarrow> char" where
  "hex_digit n = ''0123456789abcdef'' ! n"

definition hexlify :: "nat list \<Rightarrow> string" where
  "hexlify bs = concat (map (\<lambda>b. [hex_digit (b div 16), hex_digit (b mod 16)]) bs)"

datatype InvalidId = InvalidId string

definition ObjectId_init :: "string \<Rightarrow> InvalidId + ObjectId" where
  "ObjectId_init oid =
     (if length oid = 24 then
        (case fromhex oid of
           Some bs \<Rightarrow> Inr (ObjectId bs)
         | None \<Rightarrow> Inl (InvalidId oid))
      else Inl (InvalidId oid))"

definition ObjectId_is_valid :: "string \<Rightarrow> bool" where
  "ObjectId_is_valid oid =
     (if oid = [] then False
      else case ObjectId_init oid of Inr _ \<Rightarrow> True | Inl _ \<Rightarrow> False)"

definition ObjectId_str :: "ObjectId \<Rightarrow> string" where
  "ObjectId_str oid = hexlify (binary oid)"

subsection \<open>datetime.isoformat and str\<close>

text \<open>
  The store hands timestamps back as naive \<^verbatim>\<open>datetime\<close> objects. Their
  \<^verbatim>\<open>isoformat()\<close> is \<^verbatim>\<open>YYYY-MM-DDTHH:MM:SS\<close>, followed by \<^verbatim>\<open>.ffffff\<close> when the
  microsecond field is not zero. Of the values in \<open>pyval\<close> only a \<^verbatim>\<open>datetime\<close> has an
  \<^verbatim>\<open>isoformat\<close> attribute. \<open>zfill w n\<close> writes the last \<open>w\<close> decimal digits of \<open>n\<close>
  (the decimal digits are the first ten of \<open>hex_digit\<close>); the fields of a \<^verbatim>\<open>datetime\<close>
  never have more digits than their width.

  \<^verbatim>\<open>str(v)\<close> is the text itself for a string and the hexadecimal form for an
  \<open>ObjectId\<close>. What the builtin prints for the other values (floats, lists, nested
  dicts) is left open: it is the parameter \<open>builtin_str\<close> of everything below, and
  every result holds whatever that function is.
\<close>

fun zfill :: "nat \<Rightarrow> nat \<Rightarrow> string" where
  "zfill 0 n = []"
| "zfill (Suc w) n = zfill w (n div 10) @ [hex_digit (n mod 10)]"

definition isoformat :: "datetime \<Rightarrow> string" where
  "isoformat t =
     zfill 4 (year t) @ ''-'' @ zfill 2 (month t) @ ''-'' @ zfill 2 (day t) @ ''T'' @
     zfill 2 (hour t) @ '':'' @ zfill 2 (minute t) @ '':'' @ zfill 2 (second t) @
     (if microsecond t = 0 then [] else ''.'' @ zfill 6 (microsecond t))"

fun isoformat_attr :: "pyval \<Rightarrow> string option" where
  "isoformat_attr (VDatetime t) = Some (isoformat t)"
| "isoformat_attr _ = None"

fun py_str :: "(pyval \<Rightarrow> string) \<Rightarrow> pyval \<Rightarrow> string" where
  "py_str builtin_str (VStr s) = s"
| "py_str builtin_str (VObjectId oid) = ObjectId_str oid"
| "py_str builtin_str v = builtin_str v"

section \<open>The document codec: serialize_doc\<close>

text \<open>
  \<^verbatim>\<open>
  def serialize_doc(doc):
      out = {**doc}
      if "_id" in out:
          out["id"] = str(out.pop("_id"))
      for k, v in list(out.items()):
          if hasattr(v, "isoformat"):
              out[k] = v.isoformat()
      return out
  \<close>
  \<open>out[k] = v\<close> on a dict replaces the value where the key stands and appends the key
  when it is new (\<open>AList.update\<close>); \<open>pop\<close> removes the key (\<open>AList.delete\<close>). The loop
  runs over a snapshot of the items and assigns into \<open>out\<close>.
\<close>

definition convert_item :: "dict \<Rightarrow> string \<times> pyval \<Rightarrow> dict" where
  "convert_item out kv =
     (case isoformat_attr (snd kv) of
        Some s \<Rightarrow> AList.update (fst kv) (VStr s) out
      | None \<Rightarrow> out)"

definition serialize_doc :: "(pyval \<Rightarrow> string) \<Rightarrow> dict \<Rightarrow> dict" where
  "serialize_doc builtin_str doc =
     (let out = doc;
          out = (case map_of out ''_id'' of
                   Some v \<Rightarrow> AList.update ''id'' (VStr (py_str builtin_str v)) (AList.delete ''_id'' out)
                 | None \<Rightarrow> out)
      in foldl convert_item out out)"

text \<open>
  The same function with the dicts as objects on a heap. The argument and the result
  are references (indices of allocated dicts); \<^verbatim>\<open>{**doc}\<close> allocates a new dict holding
  the items of \<open>doc\<close>, and every later statement assigns through the reference \<open>out\<close>.
\<close>

type_synonym heap = "dict list"

definition heap_copy :: "heap \<Rightarrow> nat \<Rightarrow> nat \<times> heap" where
  "heap_copy h r = (length h, h @ [h ! r])"

definition heap_assign :: "nat \<Rightarrow> (dict \<Rightarrow> dict) \<Rightarrow> heap \<Rightarrow> heap" where
  "heap_assign r f h = h[r := f (h ! r)]"

definition heap_convert_item :: "nat \<Rightarrow> heap \<Rightarrow> string \<times> pyval \<Rightarrow> heap" where
  "heap_convert_item out h kv =
     (case isoformat_attr (snd kv) of
        Some s \<Rightarrow> heap_assign out (AList.update (fst kv) (VStr s)) h
      | None \<Rightarrow> h)"

definition serialize_doc_heap :: "(pyval \<Rightarrow> string) \<Rightarrow> heap \<Rightarrow> nat \<Rightarrow> nat \<times> heap" where
  "serialize_doc_heap builtin_str h doc =
     (let (out, h) = heap_copy h doc;
          h = (case map_of (h ! out) ''_id'' of
                 Some v \<Rightarrow>
                   heap_assign out (AList.update ''id'' (VStr (py_str builtin_str v)))
                     (heap_assign out (AList.delete ''_id'') h)
               | None \<Rightarrow> h)
      in (out, foldl (heap_convert_item out) h (h ! out)))"

section \<open>Record schemas\<close>

text \<open>
  \<^verbatim>\<open>schemas.py\<close> declares five pydantic models and \<^verbatim>\<open>main.py\<close> a sixth
  (\<open>StatusUpdate\<close>). A model instance is a record; constructing one from keyword
  arguments (or from a decoded JSON object) either returns the record or raises
  \<open>ValidationError\<close> with the list of everything that was wrong. Validation is
  pydantic's default (lax) mode: a field declared with \<^verbatim>\<open>...\<close> is required, another
  takes its default, unvalidated, when the key is absent; unknown keys are ignored;
  \<^verbatim>\<open>ge=b\<close> rejects a value that is less than \<open>b\<close>; a \<^verbatim>\<open>Literal\<close> of strings accepts
  exactly the listed strings. Lax mode also reads numbers, booleans and timestamps out
  of strings; how it parses them is left open in the record \<open>lax\<close>.
\<close>

datatype loc = Key string | Index nat

datatype error_detail = Error "loc list" string

datatype ValidationError = ValidationError "error_detail list"

type_synonym 'a validation = "error_detail list + 'a"

record lax =
  str_as_int :: "string \<Rightarrow> int option"
  str_as_float :: "string \<Rightarrow> rat option"
  str_as_bool :: "string \<Rightarrow> bool option"
  as_datetime :: "pyval \<Rightarrow> datetime option"

fun at_loc :: "loc \<Rightarrow> 'a validation \<Rightarrow> 'a validation" where
  "at_loc l (Inl errs) = Inl (map (\<lambda>e. case e of Error ls t \<Rightarrow> Error (l # ls) t) errs)"
| "at_loc l (Inr x) = Inr x"

fun ap :: "('a \<Rightarrow> 'b) validation \<Rightarrow> 'a validation \<Rightarrow> 'b validation" where
  "ap (Inr f) (Inr x) = Inr (f x)"
| "ap (Inr f) (Inl errs) = Inl errs"
| "ap (Inl errs) (Inr x) = Inl errs"
| "ap (Inl errs) (Inl errs') = Inl (errs @ errs')"

definition required :: "dict \<Rightarrow> string \<Rightarrow> (pyval \<Rightarrow> 'a validation) \<Rightarrow> 'a validation" where
  "required kwargs k validator =
     (case map_of kwargs k of
        None \<Rightarrow> Inl [Error [Key k] ''missing'']
      | Some v \<Rightarrow> at_loc (Key k) (validator v))"

definition with_default :: "dict \<Rightarrow> string \<Rightarrow> 'a \<Rightarrow> (pyval \<Rightarrow> 'a validation) \<Rightarrow> 'a validation" where
  "with_default kwargs k dflt validator =
     (case map_of kwargs k of
        None \<Rightarrow> Inr dflt
      | Some v \<Rightarrow> at_loc (Key k) (validator v))"

fun str_validator :: "pyval \<Rightarrow> string validation" where
  "str_validator (VStr s) = Inr s"
| "str_validator _ = Inl [Error [] ''string_type'']"

fun int_validator :: "lax \<Rightarrow> pyval \<Rightarrow> int validation" where
  "int_validator lx (VInt n) = Inr n"
| "int_validator lx (VBool b) = Inr (if b then 1 else 0)"
| "int_validator lx (VFloat x) =
     (if of_int \<lfloor>x\<rfloor> = x then Inr \<lfloor>x\<rfloor> else Inl [Error [] ''int_from_float''])"
| "int_validator lx (VStr s) =
     (case str_as_int lx s of Some n \<Rightarrow> Inr n | None \<Rightarrow> Inl [Error [] ''int_parsing''])"
| "int_validator lx _ = Inl [Error [] ''int_type'']"

fun float_validator :: "lax \<Rightarrow> pyval \<Rightarrow> rat validation" where
  "float_validator lx (VFloat x) = Inr x"
| "float_validator lx (VInt n) = Inr (of_int n)"
| "float_validator lx (VBool b) = Inr (if b then 1 else 0)"
| "float_validator lx (VStr s) =
     (case str_as_float lx s of Some x \<Rightarrow> Inr x | None \<Rightarrow> Inl [Error [] ''float_parsing''])"
| "float_validator lx _ = Inl [Error [] ''float_type'']"

fun bool_validator :: "lax \<Rightarrow> pyval \<Rightarrow> bool validation" where
  "bool_validator lx (VBool b) = Inr b"
| "bool_validator lx (VInt n) =
     (if n = 0 then Inr False else if n = 1 then Inr True else Inl [Error [] ''bool_parsing''])"
| "bool_validator lx (VFloat x) =
     (if x = 0 then Inr False else if x = 1 then Inr True else Inl [Error [] ''bool_parsing''])"
| "bool_validator lx (VStr s) =
     (case str_as_bool lx s of Some b \<Rightarrow> Inr b | None \<Rightarrow> Inl [Error [] ''bool_parsing''])"
| "bool_validator lx _ = Inl [Error [] ''bool_type'']"

fun datetime_validator :: "lax \<Rightarrow> pyval \<Rightarrow> datetime validation" where
  "datetime_validator lx (VDatetime t) = Inr t"
| "datetime_validator lx v =
     (case as_datetime lx v of Some t \<Rightarrow> Inr t | None \<Rightarrow> Inl [Error [] ''datetime_type''])"

fun literal_validator :: "string list \<Rightarrow> pyval \<Rightarrow> string validation" where
  "literal_validator expected (VStr s) =
     (if s \<in> set expected then Inr s else Inl [Error [] ''literal_error''])"
| "literal_validator expected _ = Inl [Error [] ''literal_error'']"

fun optional :: "(pyval \<Rightarrow> 'a validation) \<Rightarrow> pyval \<Rightarrow> 'a option validation" where
  "optional validator VNone = Inr None"
| "optional validator v = ap (Inr Some) (validator v)"

definition ge :: "'a::linorder \<Rightarrow> 'a validation \<Rightarrow> 'a validation" where
  "ge bound r =
     (case r of
        Inl errs \<Rightarrow> Inl errs
      | Inr x \<Rightarrow> if x < bound then Inl [Error [] ''greater_than_equal''] else Inr x)"

fun validate_items :: "(pyval \<Rightarrow> 'a validation) \<Rightarrow> nat \<Rightarrow> pyval list \<Rightarrow> 'a list validation" where
  "validate_items validator i [] = Inr []"
| "validate_items validator i (v # vs) =
     ap (ap (Inr (#)) (at_loc (Index i) (validator v))) (validate_items validator (Suc i) vs)"

fun list_validator :: "(pyval \<Rightarrow> 'a validation) \<Rightarrow> pyval \<Rightarrow> 'a list validation" where
  "list_validator validator (VList vs) = validate_items validator 0 vs"
| "list_validator validator _ = Inl [Error [] ''list_type'']"

fun model_validator :: "(dict \<Rightarrow> 'a validation) \<Rightarrow> pyval \<Rightarrow> 'a validation" where
  "model_validator validate (VDict kwargs) = validate kwargs"
| "model_validator validate _ = Inl [Error [] ''model_type'']"

definition construct :: "'a validation \<Rightarrow> ValidationError + 'a" where
  "construct r = (case r of Inl errs \<Rightarrow> Inl (ValidationError errs) | Inr x \<Rightarrow> Inr x)"

subsection \<open>The models of schemas.py\<close>

record User =
  name :: string
  phone :: string
  email :: "string option"
  address :: "string option"
  role :: string
  is_active :: bool

definition User_validate :: "lax \<Rightarrow> dict \<Rightarrow> User validation" where
  "User_validate lx kwargs =
     ap (ap (ap (ap (ap (ap
       (Inr (\<lambda>n p e a r act.
          \<lparr>User.name = n, phone = p, email = e, address = a, role = r, is_active = act\<rparr>))
       (required kwargs ''name'' str_validator))
       (required kwargs ''phone'' str_validator))
       (with_default kwargs ''email'' None (optional str_validator)))
       (with_default kwargs ''address'' None (optional str_validator)))
       (with_default kwargs ''role'' ''customer''
          (literal_validator [''customer'', ''driver'', ''admin''])))
       (with_default kwargs ''is_active'' True (bool_validator lx))"

definition User_init :: "lax \<Rightarrow> dict \<Rightarrow> ValidationError + User" where
  "User_init lx kwargs = construct (User_validate lx kwargs)"

record Driver =
  user_id :: string
  vehicle_type :: "string option"
  license_plate :: "string option"
  is_available :: bool

definition Driver_validate :: "lax \<Rightarrow> dict \<Rightarrow> Driver validation" where
  "Driver_validate lx kwargs =
     ap (ap (ap (ap
       (Inr (\<lambda>u v l a.
          \<lparr>user_id = u, vehicle_type = v, license_plate = l, is_available = a\<rparr>))
       (required kwargs ''user_id'' str_validator))
       (with_default kwargs ''vehicle_type'' None (optional str_validator)))
       (with_default kwargs ''license_plate'' None (optional str_validator)))
       (with_default kwargs ''is_available'' True (bool_validator lx))"

definition Driver_init :: "lax \<Rightarrow> dict \<Rightarrow> ValidationError + Driver" where
  "Driver_init lx kwargs = construct (Driver_validate lx kwargs)"

record OrderItem =
  name :: string
  quantity :: int
  price :: rat

definition OrderItem_validate :: "lax \<Rightarrow> dict \<Rightarrow> OrderItem validation" where
  "OrderItem_validate lx kwargs =
     ap (ap (ap
       (Inr (\<lambda>n q p. \<lparr>OrderItem.name = n, quantity = q, price = p\<rparr>))
       (required kwargs ''name'' str_validator))
       (required kwargs ''quantity'' (\<lambda>v. ge 1 (int_validator lx v))))
       (required kwargs ''price'' (\<lambda>v. ge 0 (float_validator lx v)))"

definition OrderItem_init :: "lax \<Rightarrow> dict \<Rightarrow> ValidationError + OrderItem" where
  "OrderItem_init lx kwargs = construct (OrderItem_validate lx kwargs)"

text \<open>
  The annotation of \<open>Order.status\<close>, which \<open>StatusUpdate\<close> reads back through
  \<^verbatim>\<open>Order.model_fields["status"].annotation\<close>.
\<close>

definition Order_status_annotation :: "string list" where
  "Order_status_annotation =
     [''PENDING'', ''DRIVER_ASSIGNED'', ''PICKED_UP'', ''IN_WASH'', ''OUT_FOR_DELIVERY'',
      ''DELIVERED'']"

record Order =
  customer_id :: string
  driver_id :: "string option"
  service_type :: string
  items :: "OrderItem list"
  pickup_address :: string
  delivery_address :: string
  scheduled_at :: "datetime option"
  "notes" :: "string option"
  status :: string
  payment_method :: string
  total :: rat

definition Order_validate :: "lax \<Rightarrow> dict \<Rightarrow> Order validation" where
  "Order_validate lx kwargs =
     ap (ap (ap (ap (ap (ap (ap (ap (ap (ap (ap
       (Inr (\<lambda>c d s i p dl sch n st pm t.
          \<lparr>customer_id = c, driver_id = d, service_type = s, items = i,
           pickup_address = p, delivery_address = dl, scheduled_at = sch, notes = n,
           Order.status = st, payment_method = pm, total = t\<rparr>))
       (required kwargs ''customer_id'' str_validator))
       (with_default kwargs ''driver_id'' None (optional str_validator)))
       (required kwargs ''service_type''
          (literal_validator [''wash_fold'', ''dry_clean'', ''iron_only''])))
       (with_default kwargs ''items'' []
          (list_validator (model_validator (OrderItem_validate lx)))))
       (required kwargs ''pickup_address'' str_validator))
       (required kwargs ''delivery_address'' str_validator))
       (with_default kwargs ''scheduled_at'' None (optional (datetime_validator lx))))
       (with_default kwargs ''notes'' None (optional str_validator)))
       (with_default kwargs ''status'' ''PENDING'' (literal_validator Order_status_annotation)))
       (with_default kwargs ''payment_method'' ''cod'' (literal_validator [''cod'', ''card''])))
       (with_default kwargs ''total'' 0 (\<lambda>v. ge 0 (float_validator lx v)))"

definition Order_init :: "lax \<Rightarrow> dict \<Rightarrow> ValidationError + Order" where
  "Order_init lx kwargs = construct (Order_validate lx kwargs)"

record Payment =
  order_id :: string
  amount :: rat
  "method" :: string
  status :: string
  transaction_id :: "string option"

definition Payment_validate :: "lax \<Rightarrow> dict \<Rightarrow> Payment validation" where
  "Payment_validate lx kwargs =
     ap (ap (ap (ap (ap
       (Inr (\<lambda>oid a m st tr.
          \<lparr>order_id = oid, amount = a, method = m, Payment.status = st, transaction_id = tr\<rparr>))
       (required kwargs ''order_id'' str_validator))
       (required kwargs ''amount'' (\<lambda>v. ge 0 (float_validator lx v))))
       (required kwargs ''method'' (literal_validator [''cod'', ''card''])))
       (with_default kwargs ''status'' ''PENDING''
          (literal_validator [''PENDING'', ''SUCCESS'', ''FAILED''])))
       (with_default kwargs ''transaction_id'' None (optional str_validator))"

definition Payment_init :: "lax \<Rightarrow> dict \<Rightarrow> ValidationError + Payment" where
  "Payment_init lx kwargs = construct (Payment_validate lx kwargs)"

subsection \<open>The update payload of main.py\<close>

record StatusUpdate =
  status :: string

definition StatusUpdate_validate :: "dict \<Rightarrow> StatusUpdate validation" where
  "StatusUpdate_validate kwargs =
     ap (Inr (\<lambda>st. \<lparr>StatusUpdate.status = st\<rparr>))
       (required kwargs ''status'' (literal_validator Order_status_annotation))"

definition StatusUpdate_init :: "dict \<Rightarrow> ValidationError + StatusUpdate" where
  "StatusUpdate_init kwargs = construct (StatusUpdate_validate kwargs)"

text \<open>
  A Python number below a bound: what \<^verbatim>\<open>v < b\<close> says for an \<open>int\<close>, a \<open>float\<close> or a
  \<open>bool\<close> (which is an \<open>int\<close>), and false for every other value.
\<close>

fun number_below :: "rat \<Rightarrow> pyval \<Rightarrow> bool" where
  "number_below b (VInt n) = (of_int n < b)"
| "number_below b (VFloat x) = (x < b)"
| "number_below b (VBool t) = ((if t then 1 else 0) < b)"
| "number_below b _ = False"

text \<open>
  A value that validation reads as a number below a bound: what the float or the int
  validator of \<open>lx\<close> makes of it, a string that lax mode parses included.
\<close>

definition float_reads_below :: "lax \<Rightarrow> rat \<Rightarrow> pyval \<Rightarrow> bool" where
  "float_reads_below lx b v = (case float_validator lx v of Inr x \<Rightarrow> x < b | Inl errs \<Rightarrow> False)"

definition int_reads_below :: "lax \<Rightarrow> int \<Rightarrow> pyval \<Rightarrow> bool" where
  "int_reads_below lx b v = (case int_validator lx v of Inr n \<Rightarrow> n < b | Inl errs \<Rightarrow> False)"

section \<open>The store and the handlers of main.py\<close>

text \<open>
  \<open>db\<close> is the module-level handle of \<^verbatim>\<open>database.py\<close>: \<open>None\<close> when no connection was
  configured. A store maps a collection name to its documents in natural order and
  records every call made on it. A filter or a \<^verbatim>\<open>$set\<close> document is a dict; a document
  matches a filter when it holds every pair of the filter. \<^verbatim>\<open>update_one\<close> changes the
  first matching document and reports whether there was one; \<^verbatim>\<open>find_one\<close> returns the
  first matching document or \<open>None\<close>.
\<close>

datatype store_call = UpdateOne string dict dict | FindOne string dict

record store =
  collections :: "string \<Rightarrow> dict list"
  calls :: "store_call list"

definition matches :: "dict \<Rightarrow> dict \<Rightarrow> bool" where
  "matches flt doc = list_all (\<lambda>kv. map_of doc (fst kv) = Some (snd kv)) flt"

definition apply_set :: "dict \<Rightarrow> dict \<Rightarrow> dict" where
  "apply_set sets doc = foldl (\<lambda>d kv. AList.update (fst kv) (snd kv) d) doc sets"

fun update_first :: "(dict \<Rightarrow> bool) \<Rightarrow> (dict \<Rightarrow> dict) \<Rightarrow> dict list \<Rightarrow> nat \<times> dict list" where
  "update_first p f [] = (0, [])"
| "update_first p f (d # ds) =
     (if p d then (1, f d # ds)
      else (case update_first p f ds of (n, ds') \<Rightarrow> (n, d # ds')))"

definition update_one :: "string \<Rightarrow> dict \<Rightarrow> dict \<Rightarrow> store \<Rightarrow> nat \<times> store" where
  "update_one coll flt sets st =
     (case update_first (matches flt) (apply_set sets) (collections st coll) of
        (matched_count, ds) \<Rightarrow>
          (matched_count,
           st\<lparr>collections := (collections st)(coll := ds),
              calls := calls st @ [UpdateOne coll flt sets]\<rparr>))"

definition find_one :: "string \<Rightarrow> dict \<Rightarrow> store \<Rightarrow> dict option \<times> store" where
  "find_one coll flt st =
     (find (matches flt) (collections st coll), st\<lparr>calls := calls st @ [FindOne coll flt]\<rparr>)"

text \<open>
  A handler either returns its value or raises: an \<open>HTTPException\<close> with a status code
  and a detail, or another exception that nothing catches.
\<close>

datatype failure = HTTPException nat string | Uncaught string

text \<open>
  \<^verbatim>\<open>
  @app.post("/api/orders", status_code=201)
  def create_order(order: Order):
      try:
          oid = create_document("order", order)
          return {"id": oid, "status": order.status}
      except Exception as e:
          raise HTTPException(status_code=500, detail=str(e))
  \<close>
  \<open>create_document\<close> lives in \<^verbatim>\<open>database.py\<close>; it is a parameter here, returning the new
  identifier or raising an exception with a message. The status code of the route is
  returned with the body.
\<close>

datatype exn = Exception string

fun exn_str :: "exn \<Rightarrow> string" where
  "exn_str (Exception msg) = msg"

definition create_order ::
  "(string \<Rightarrow> Order \<Rightarrow> exn + string) \<Rightarrow> Order \<Rightarrow> failure + nat \<times> dict" where
  "create_order create_document order =
     (case create_document ''order'' order of
        Inr oid \<Rightarrow> Inr (201, [(''id'', VStr oid), (''status'', VStr (Order.status order))])
      | Inl e \<Rightarrow> Inl (HTTPException 500 (exn_str e)))"

text \<open>
  \<^verbatim>\<open>
  @app.patch("/api/orders/{order_id}/status")
  def update_order_status(order_id: str, payload: StatusUpdate):
      if db is None:
          raise HTTPException(status_code=500, detail="Database not available")
      if not ObjectId.is_valid(order_id):
          raise HTTPException(status_code=400, detail="Invalid order id")
      res = db["order"].update_one({"_id": ObjectId(order_id)},
                                   {"$set": {"status": payload.status}})
      if res.matched_count == 0:
          raise HTTPException(status_code=404, detail="Order not found")
      doc = db["order"].find_one({"_id": ObjectId(order_id)})
      return serialize_doc(doc)
  \<close>
  The handler returns its result together with the handle after the call; the path
  parameter is written \<open>order_id'\<close>, since \<open>order_id\<close> is a field of \<open>Payment\<close>.
  \<^verbatim>\<open>serialize_doc(None)\<close> raises \<open>TypeError\<close>.
\<close>

definition update_order_status ::
  "(pyval \<Rightarrow> string) \<Rightarrow> store option \<Rightarrow> string \<Rightarrow> StatusUpdate \<Rightarrow>
     (failure + dict) \<times> store option" where
  "update_order_status builtin_str db order_id' payload =
     (case db of
        None \<Rightarrow> (Inl (HTTPException 500 ''Database not available''), db)
      | Some st \<Rightarrow>
          if \<not> ObjectId_is_valid order_id' then
            (Inl (HTTPException 400 ''Invalid order id''), db)
          else
            (case ObjectId_init order_id' of
               Inl e \<Rightarrow> (Inl (Uncaught ''InvalidId''), db)
             | Inr oid \<Rightarrow>
                 (case update_one ''order'' [(''_id'', VObjectId oid)]
                         [(''status'', VStr (StatusUpdate.status payload))] st of
                    (matched_count, st1) \<Rightarrow>
                      if matched_count = 0 then
                        (Inl (HTTPException 404 ''Order not found''), Some st1)
                      else
                        (case find_one ''order'' [(''_id'', VObjectId oid)] st1 of
                           (None, st2) \<Rightarrow> (Inl (Uncaught ''TypeError''), Some st2)
                         | (Some doc, st2) \<Rightarrow>
                             (Inr (serialize_doc builtin_str doc), Some st2)))))"

section \<open>Auxiliary notions for the proofs\<close>

text \<open>
  The two halves of \<open>serialize_doc\<close> on their own: the renaming of \<^verbatim>\<open>_id\<close>, and what the
  loop does to one value.
\<close>

definition rename_id :: "(pyval \<Rightarrow> string) \<Rightarrow> dict \<Rightarrow> dict" where
  "rename_id builtin_str d =
     (case map_of d ''_id'' of
        Some v \<Rightarrow> AList.update ''id'' (VStr (py_str builtin_str v)) (AList.delete ''_id'' d)
      | None \<Rightarrow> d)"

definition convert_value :: "pyval \<Rightarrow> pyval" where
  "convert_value v = (case isoformat_attr v of Some s \<Rightarrow> VStr s | None \<Rightarrow> v)"

text \<open>
  An identifier string in canonical form: 24 lower-case hexadecimal digits, which is
  what \<open>ObjectId_str\<close> writes.
\<close>

definition canonical_id :: "string \<Rightarrow> bool" where
  "canonical_id s = (length s = 24 \<and> list_all (\<lambda>c. c \<in> set ''0123456789abcdef'') s)"

section \<open>Example inputs\<close>

text \<open>
  Concrete inputs for the examples that follow the theorems: instances of the two
  parameters (no example applies \<open>example_str\<close>, and \<open>example_lax\<close> reads nothing out of
  strings), a stored order, a store holding it, and the order of the scenario
  \<^verbatim>\<open>service_type="wash_fold"\<close>, one item \<^verbatim>\<open>{name:"Shirt", quantity:2, price:5}\<close>.
\<close>

definition example_str :: "pyval \<Rightarrow> string" where
  "example_str v = []"

definition example_lax :: lax where
  "example_lax =
     \<lparr>str_as_int = (\<lambda>s. None), str_as_float = (\<lambda>s. None), str_as_bool = (\<lambda>s. None),
      as_datetime = (\<lambda>v. None)\<rparr>"

definition example_oid :: ObjectId where
  "example_oid = ObjectId [95, 29, 127, 62, 139, 60, 74, 45, 156, 30, 75, 122]"

definition example_time :: datetime where
  "example_time =
     \<lparr>year = 2024, month = 1, day = 2, hour = 3, minute = 4, second = 5, microsecond = 0\<rparr>"

definition example_doc :: dict where
  "example_doc =
     [(''_id'', VObjectId example_oid),
      (''customer_id'', VStr ''u1''),
      (''status'', VStr ''PENDING''),
      (''created_at'', VDatetime example_time)]"

definition example_store :: store where
  "example_store =
     \<lparr>collections = (\<lambda>coll. if coll = ''order'' then [example_doc] else []), calls = []\<rparr>"

definition example_order_body :: dict where
  "example_order_body =
     [(''customer_id'', VStr ''u1''),
      (''service_type'', VStr ''wash_fold''),
      (''items'',
       VList [VDict [(''name'', VStr ''Shirt''), (''quantity'', VInt 2), (''price'', VInt 5)]]),
      (''pickup_address'', VStr ''1 High Street''),
      (''delivery_address'', VStr ''2 Low Road'')]"

definition example_order :: Order where
  "example_order =
     \<lparr>customer_id = ''u1'', driver_id = None, service_type = ''wash_fold'',
      items = [\<lparr>OrderItem.name = ''Shirt'', quantity = 2, price = 5\<rparr>],
      pickup_address = ''1 High Street'', delivery_address = ''2 Low Road'',
      scheduled_at = None, notes = None, Order.status = ''PENDING'', payment_method = ''cod'',
      total = 0\<rparr>"

definition example_create_document :: "string \<Rightarrow> Order \<Rightarrow> exn + string" where
  "example_create_document coll order = Inr ''5f1d7f3e8b3c4a2d9c1e4b7a''"

definition failing_create_document :: "string \<Rightarrow> Order \<Rightarrow> exn + string" where
  "failing_create_document coll order = Inl (Exception ''Database not available'')"

definition order_body_with_item :: "pyval \<Rightarrow> pyval \<Rightarrow> dict" where
  "order_body_with_item q p =
     [(''customer_id'', VStr ''u1''),
      (''service_type'', VStr ''wash_fold''),
      (''items'', VList [VDict [(''name'', VStr ''Shirt''), (''quantity'', q), (''price'', p)]]),
      (''pickup_address'', VStr ''1 High Street''),
      (''delivery_address'', VStr ''2 Low Road'')]"

definition example_user :: User where
  "example_user =
     \<lparr>User.name = ''Ann'', phone = ''555'', email = None, address = None, role = ''customer'',
      is_active = True\<rparr>"

definition example_inactive_user :: User where
  "example_inactive_user =
     \<lparr>User.name = ''Bob'', phone = ''777'', email = Some ''bob@example.org'', address = None,
      role = ''customer'', is_active = False\<rparr>"

definition example_driver :: Driver where
  "example_driver =
     \<lparr>user_id = ''u2'', vehicle_type = Some ''Van'', license_plate = None, is_available = True\<rparr>"

definition example_payment :: Payment where
  "example_payment =
     \<lparr>order_id = ''o1'', amount = 25 / 2, method = ''card'', Payment.status = ''PENDING'',
      transaction_id = None\<rparr>"

text \<open>
  An instance of \<open>lax\<close> that reads the string \<^verbatim>\<open>-5\<close> as a number and no other string.
\<close>

definition minus_five_lax :: lax where
  "minus_five_lax =
     \<lparr>str_as_int = (\<lambda>s. if s = ''-5'' then Some (- 5) else None),
      str_as_float = (\<lambda>s. if s = ''-5'' then Some (- 5) else None),
      str_as_bool = (\<lambda>s. None),
      as_datetime = (\<lambda>v. None)\<rparr>"

section \<open>The codec, verified\<close>

lemma update_append_notin:
  "k \<notin> fst ` set xs \<Longrightarrow> AList.update k v (xs @ ys) = xs @ AList.update k v ys"
  by (induction xs) auto

text \<open>
  On a dict the loop is a map over the values: each assignment lands on the item the
  loop is looking at, because no earlier item has its key.
\<close>

lemma foldl_convert_item:
  "distinct (map fst (pre @ rest)) \<Longrightarrow>
   foldl convert_item (pre @ rest) rest = pre @ map (apsnd convert_value) rest"
proof (induction rest arbitrary: pre)
  case Nil
  then show ?case by simp
next
  case (Cons kv rest)
  obtain k v where kv: "kv = (k, v)" by (cases kv)
  from Cons.prems kv have notin: "k \<notin> fst ` set pre" by auto
  have step: "convert_item (pre @ kv # rest) kv = (pre @ [(k, convert_value v)]) @ rest"
    using notin
    by (simp add: kv convert_item_def convert_value_def update_append_notin split: option.splits)
  have d: "distinct (map fst ((pre @ [(k, convert_value v)]) @ rest))"
    using Cons.prems kv by simp
  show ?case
    using Cons.IH[OF d] step by (simp add: kv)
qed

lemma is_dict_rename: "is_dict d \<Longrightarrow> is_dict (rename_id bs d)"
  by (auto simp: rename_id_def is_dict_def distinct_update distinct_delete split: option.splits)

lemma serialize_doc_map:
  assumes "is_dict d"
  shows "serialize_doc bs d = map (apsnd convert_value) (rename_id bs d)"
proof -
  have "distinct (map fst (rename_id bs d))"
    using is_dict_rename[OF assms] by (simp add: is_dict_def)
  then show ?thesis
    using foldl_convert_item[of "[]" "rename_id bs d"]
    by (simp add: serialize_doc_def rename_id_def Let_def)
qed

lemma convert_value_idem: "convert_value (convert_value v) = convert_value v"
  by (cases v) (simp_all add: convert_value_def)

lemma map_of_rename_id:
  "map_of (rename_id bs d) k =
     (if k = ''_id'' then None
      else if k = ''id'' then
        (case map_of d ''_id'' of Some v \<Rightarrow> Some (VStr (py_str bs v)) | None \<Rightarrow> map_of d ''id'')
      else map_of d k)"
  by (auto simp: rename_id_def update_conv' delete_conv' split: option.splits)

lemma keys_rename_id:
  "set (map fst (rename_id bs d)) =
     (set (map fst d) - {''_id''}) \<union> (if map_of d ''_id'' = None then {} else {''id''})"
proof -
  have "set (map fst (rename_id bs d)) = dom (map_of (rename_id bs d))"
    by (simp add: dom_map_of_conv_image_fst)
  also have "\<dots> =
      (dom (map_of d) - {''_id''}) \<union> (if map_of d ''_id'' = None then {} else {''id''})"
    by (auto simp: map_of_rename_id dom_def split: if_splits option.splits)
  finally show ?thesis
    by (simp add: dom_map_of_conv_image_fst)
qed

lemma is_dict_serialize: "is_dict d \<Longrightarrow> is_dict (serialize_doc bs d)"
  using is_dict_rename[of d bs] by (simp add: serialize_doc_map is_dict_def comp_def)

lemma keys_serialize_doc:
  "is_dict d \<Longrightarrow> map fst (serialize_doc bs d) = map fst (rename_id bs d)"
  by (simp add: serialize_doc_map comp_def)

lemma map_of_serialize:
  "is_dict d \<Longrightarrow>
   map_of (serialize_doc bs d) k = map_option convert_value (map_of (rename_id bs d) k)"
  by (simp add: serialize_doc_map map_of_map apsnd_def map_prod_def)

lemma is_dict_example_doc: "is_dict example_doc"
  by (simp add: is_dict_def example_doc_def)

lemma example_oid_str: "ObjectId_str example_oid = ''5f1d7f3e8b3c4a2d9c1e4b7a''"
  by code_simp

lemma example_time_isoformat: "isoformat example_time = ''2024-01-02T03:04:05''"
  by code_simp

text \<open>
  Claim C1. Decoding is idempotent: for every document \<open>d\<close> (a dict),
  \<open>serialize_doc (serialize_doc d) = serialize_doc d\<close>; the two sides agree item by
  item, key order included.
\<close>

theorem serialize_doc_idempotent:
  assumes "is_dict d"
  shows "serialize_doc bs (serialize_doc bs d) = serialize_doc bs d"
proof -
  let ?out = "serialize_doc bs d"
  have wf: "is_dict ?out" using assms by (rule is_dict_serialize)
  have "map_of ?out ''_id'' = None"
    using assms by (simp add: map_of_serialize map_of_rename_id)
  then have "rename_id bs ?out = ?out" by (simp add: rename_id_def)
  then have "serialize_doc bs ?out = map (apsnd convert_value) ?out"
    using wf by (simp add: serialize_doc_map)
  also have "\<dots> = ?out"
    using assms
    by (simp add: serialize_doc_map convert_value_idem apsnd_def map_prod_def comp_def
        case_prod_beta)
  finally show ?thesis .
qed

theorem serialize_doc_idempotent_witness:
  "is_dict example_doc \<and>
   serialize_doc example_str (serialize_doc example_str example_doc) =
     serialize_doc example_str example_doc"
  using is_dict_example_doc serialize_doc_idempotent[OF is_dict_example_doc, of example_str]
  by simp

text \<open>
  Claim C4, as amended. For every document: when it has an \<^verbatim>\<open>_id\<close>, the output has an
  \<open>id\<close> holding \<open>str\<close> of that value, which for a native identifier is its hexadecimal
  form; every top-level field holding a timestamp comes out as its \<open>isoformat\<close> string,
  except \<^verbatim>\<open>_id\<close> itself and an \<open>id\<close> field that the renaming overwrites; and the output
  never has an \<^verbatim>\<open>_id\<close> key. The claim as stated, with every timestamp field converted,
  fails on a document that has an \<^verbatim>\<open>_id\<close> and a timestamp under \<open>id\<close>.
\<close>

theorem serialize_doc_rename_convert:
  assumes "is_dict d"
  shows "(\<forall>v. map_of d ''_id'' = Some v \<longrightarrow>
            map_of (serialize_doc bs d) ''id'' = Some (VStr (py_str bs v))) \<and>
         (\<forall>oid. map_of d ''_id'' = Some (VObjectId oid) \<longrightarrow>
            map_of (serialize_doc bs d) ''id'' = Some (VStr (hexlify (binary oid)))) \<and>
         (\<forall>k t. map_of d k = Some (VDatetime t) \<and> k \<noteq> ''_id'' \<and>
                 (k = ''id'' \<longrightarrow> map_of d ''_id'' = None) \<longrightarrow>
            map_of (serialize_doc bs d) k = Some (VStr (isoformat t))) \<and>
         map_of (serialize_doc bs d) ''_id'' = None"
  using assms
  by (auto simp: map_of_serialize map_of_rename_id convert_value_def ObjectId_str_def)

theorem serialize_doc_rename_convert_witness:
  "is_dict example_doc \<and>
   map_of example_doc ''_id'' = Some (VObjectId example_oid) \<and>
   map_of example_doc ''created_at'' = Some (VDatetime example_time) \<and>
   map_of (serialize_doc example_str example_doc) ''id'' =
     Some (VStr ''5f1d7f3e8b3c4a2d9c1e4b7a'') \<and>
   map_of (serialize_doc example_str example_doc) ''created_at'' =
     Some (VStr ''2024-01-02T03:04:05'') \<and>
   map_of (serialize_doc example_str example_doc) ''_id'' = None"
proof -
  have a: "map_of example_doc ''_id'' = Some (VObjectId example_oid)"
    by (simp add: example_doc_def)
  have b: "map_of example_doc ''created_at'' = Some (VDatetime example_time)"
    by (simp add: example_doc_def)
  note th = serialize_doc_rename_convert[OF is_dict_example_doc, of example_str]
  from th a have "map_of (serialize_doc example_str example_doc) ''id'' =
      Some (VStr (hexlify (binary example_oid)))"
    by blast
  then have c: "map_of (serialize_doc example_str example_doc) ''id'' =
      Some (VStr ''5f1d7f3e8b3c4a2d9c1e4b7a'')"
    using example_oid_str by (simp add: ObjectId_str_def)
  from th b have "map_of (serialize_doc example_str example_doc) ''created_at'' =
      Some (VStr (isoformat example_time))"
    by simp
  then have d: "map_of (serialize_doc example_str example_doc) ''created_at'' =
      Some (VStr ''2024-01-02T03:04:05'')"
    by (simp only: example_time_isoformat)
  from th have e: "map_of (serialize_doc example_str example_doc) ''_id'' = None"
    by blast
  from is_dict_example_doc a b c d e show ?thesis by blast
qed

theorem serialize_doc_id_timestamp_counterexample:
  "map_of [(''_id'', VObjectId example_oid), (''id'', VDatetime example_time)] ''id'' =
     Some (VDatetime example_time) \<and>
   map_of
     (serialize_doc example_str
        [(''_id'', VObjectId example_oid), (''id'', VDatetime example_time)]) ''id'' =
     Some (VStr ''5f1d7f3e8b3c4a2d9c1e4b7a'') \<and>
   map_of
     (serialize_doc example_str
        [(''_id'', VObjectId example_oid), (''id'', VDatetime example_time)]) ''id'' \<noteq>
     Some (VStr (isoformat example_time))"
  by code_simp

lemma heap_assign_last: "heap_assign (length h) f (h @ [x]) = h @ [f x]"
  by (simp add: heap_assign_def)

lemma heap_convert_item_last:
  "heap_convert_item (length h) (h @ [x]) kv = h @ [convert_item x kv]"
  by (simp add: heap_convert_item_def convert_item_def heap_assign_last split: option.splits)

lemma foldl_heap_convert_item:
  "foldl (heap_convert_item (length h)) (h @ [x]) kvs = h @ [foldl convert_item x kvs]"
  by (induction kvs arbitrary: x) (simp_all add: heap_convert_item_last)

lemma serialize_doc_heap_eq:
  "serialize_doc_heap bs h doc = (length h, h @ [serialize_doc bs (h ! doc)])"
  by (simp add: serialize_doc_heap_def heap_copy_def serialize_doc_def Let_def heap_assign_last
      foldl_heap_convert_item split: option.splits)

text \<open>
  Claim C9, as amended. \<open>serialize_doc\<close> allocates its result and leaves every dict
  that existed before the call as it was, its argument included. Every top-level field
  whose value has no \<open>isoformat\<close> is carried into the output with the same key and
  value, except \<^verbatim>\<open>_id\<close> and an \<open>id\<close> field of a document that also has an \<^verbatim>\<open>_id\<close>. The keys
  of the output are the keys of the input without \<^verbatim>\<open>_id\<close>, and with \<open>id\<close> when the input
  had an \<^verbatim>\<open>_id\<close>. The claim as stated, which excepts only \<^verbatim>\<open>_id\<close> and timestamps, fails
  on a document that has both \<^verbatim>\<open>_id\<close> and \<open>id\<close>: the \<open>id\<close> field is overwritten.
\<close>

theorem serialize_doc_frame:
  "serialize_doc_heap bs h doc = (length h, h @ [serialize_doc bs (h ! doc)]) \<and>
   (\<forall>r < length h. snd (serialize_doc_heap bs h doc) ! r = h ! r) \<and>
   (is_dict d \<longrightarrow>
      (\<forall>k v. k \<noteq> ''_id'' \<and> (k = ''id'' \<longrightarrow> map_of d ''_id'' = None) \<and>
             map_of d k = Some v \<and> isoformat_attr v = None \<longrightarrow>
             map_of (serialize_doc bs d) k = Some v) \<and>
      set (map fst (serialize_doc bs d)) =
        (set (map fst d) - {''_id''}) \<union> (if map_of d ''_id'' = None then {} else {''id''}))"
proof (intro conjI impI allI)
  show "serialize_doc_heap bs h doc = (length h, h @ [serialize_doc bs (h ! doc)])"
    by (rule serialize_doc_heap_eq)
next
  fix r
  assume "r < length h"
  then show "snd (serialize_doc_heap bs h doc) ! r = h ! r"
    by (simp add: serialize_doc_heap_eq nth_append)
next
  fix k v
  assume wf: "is_dict d"
    and kv: "k \<noteq> ''_id'' \<and> (k = ''id'' \<longrightarrow> map_of d ''_id'' = None) \<and>
             map_of d k = Some v \<and> isoformat_attr v = None"
  then have "map_of (rename_id bs d) k = Some v"
    by (auto simp: map_of_rename_id)
  with wf kv show "map_of (serialize_doc bs d) k = Some v"
    by (simp add: map_of_serialize convert_value_def)
next
  assume "is_dict d"
  then show "set (map fst (serialize_doc bs d)) =
        (set (map fst d) - {''_id''}) \<union> (if map_of d ''_id'' = None then {} else {''id''})"
    using keys_rename_id[of bs d] by (simp only: keys_serialize_doc)
qed

theorem serialize_doc_frame_witness:
  "is_dict example_doc \<and>
   snd (serialize_doc_heap example_str [example_doc] 0) ! 0 = example_doc \<and>
   map_of example_doc ''customer_id'' = Some (VStr ''u1'') \<and>
   map_of (serialize_doc example_str example_doc) ''customer_id'' = Some (VStr ''u1'') \<and>
   set (map fst (serialize_doc example_str example_doc)) =
     {''customer_id'', ''status'', ''created_at'', ''id''}"
proof -
  note th = serialize_doc_frame[of example_str "[example_doc]" 0 example_doc]
  from th have a: "snd (serialize_doc_heap example_str [example_doc] 0) ! 0 = example_doc"
    by simp
  have b: "map_of example_doc ''customer_id'' = Some (VStr ''u1'')"
    by (simp add: example_doc_def)
  from th is_dict_example_doc b
  have c: "map_of (serialize_doc example_str example_doc) ''customer_id'' = Some (VStr ''u1'')"
    by simp
  from th is_dict_example_doc
  have "set (map fst (serialize_doc example_str example_doc)) =
      (set (map fst example_doc) - {''_id''}) \<union>
      (if map_of example_doc ''_id'' = None then {} else {''id''})"
    by blast
  also have "\<dots> = {''customer_id'', ''status'', ''created_at'', ''id''}"
    by (auto simp: example_doc_def)
  finally show ?thesis
    using is_dict_example_doc a b c by blast
qed

theorem serialize_doc_id_overwritten_counterexample:
  "map_of [(''_id'', VObjectId example_oid), (''id'', VInt 7)] ''id'' = Some (VInt 7) \<and>
   isoformat_attr (VInt 7) = None \<and>
   map_of (serialize_doc example_str [(''_id'', VObjectId example_oid), (''id'', VInt 7)])
     ''id'' = Some (VStr ''5f1d7f3e8b3c4a2d9c1e4b7a'')"
  by code_simp

section \<open>The status update, verified\<close>

lemma update_first_none:
  "list_all (\<lambda>d. \<not> p d) ds \<Longrightarrow> update_first p f ds = (0, ds)"
  by (induction ds) auto

lemma find_after_prefix:
  "list_all (\<lambda>x. \<not> p x) pre \<Longrightarrow> p y \<Longrightarrow> find p (pre @ y # post) = Some y"
  by (induction pre) auto

lemma matches_id: "matches [(''_id'', v)] d = (map_of d ''_id'' = Some v)"
  by (simp add: matches_def)

lemma apply_set_status: "apply_set [(''status'', s)] d = AList.update ''status'' s d"
  by (simp add: apply_set_def)

lemma update_first_split:
  "list_all (\<lambda>x. \<not> p x) pre \<Longrightarrow> p d \<Longrightarrow>
   update_first p f (pre @ d # post) = (1, pre @ f d # post)"
  by (induction pre) auto

lemma first_match_exists:
  "\<exists>d \<in> set ds. p d \<Longrightarrow>
   \<exists>pre d post. ds = pre @ d # post \<and> list_all (\<lambda>x. \<not> p x) pre \<and> p d"
proof -
  assume "\<exists>d \<in> set ds. p d"
  from split_list_first_prop[OF this] obtain pre d post where
    "ds = pre @ d # post" "p d" "\<forall>y \<in> set pre. \<not> p y" by blast
  then have "ds = pre @ d # post \<and> list_all (\<lambda>x. \<not> p x) pre \<and> p d"
    by (simp add: list_all_iff)
  then show ?thesis by blast
qed

lemma update_order_status_first_match:
  assumes valid: "ObjectId_is_valid order_id'" and init: "ObjectId_init order_id' = Inr oid"
    and split: "collections st ''order'' = pre @ d # post"
    and pre: "list_all (\<lambda>x. map_of x ''_id'' \<noteq> Some (VObjectId oid)) pre"
    and pd: "map_of d ''_id'' = Some (VObjectId oid)"
  shows "update_order_status bs (Some st) order_id' payload =
           (Inr (serialize_doc bs (AList.update ''status'' (VStr (StatusUpdate.status payload)) d)),
            Some (st\<lparr>collections := (collections st)
                      (''order'' := pre @ AList.update ''status'' (VStr (StatusUpdate.status payload)) d # post),
                    calls := calls st @
                      [UpdateOne ''order'' [(''_id'', VObjectId oid)]
                         [(''status'', VStr (StatusUpdate.status payload))],
                       FindOne ''order'' [(''_id'', VObjectId oid)]]\<rparr>))"
proof -
  let ?p = "matches [(''_id'', VObjectId oid)]"
  let ?s = "VStr (StatusUpdate.status payload)"
  let ?f = "apply_set [(''status'', ?s)]"
  let ?d' = "AList.update ''status'' ?s d"
  have pre': "list_all (\<lambda>x. \<not> ?p x) pre" using pre by (simp add: matches_id)
  have pd0: "?p d" using pd by (simp add: matches_id)
  have pd': "?p ?d'" using pd by (simp add: update_conv' matches_id)
  have upd: "update_first ?p ?f (collections st ''order'') = (1, pre @ ?d' # post)"
    using update_first_split[where p="?p" and f="?f", OF pre' pd0] split
    by (simp add: apply_set_status)
  have found: "find ?p (pre @ ?d' # post) = Some ?d'"
    using pre' pd' by (rule find_after_prefix[where p="?p"])
  show ?thesis
    using valid init upd found
    by (simp add: update_order_status_def update_one_def find_one_def)
qed

lemma update_order_status_no_match:
  assumes "ObjectId_is_valid order_id'" and "ObjectId_init order_id' = Inr oid"
    and "list_all (\<lambda>d. map_of d ''_id'' \<noteq> Some (VObjectId oid)) (collections st ''order'')"
  shows "update_order_status bs (Some st) order_id' payload =
           (Inl (HTTPException 404 ''Order not found''),
            Some (st\<lparr>calls := calls st @
                      [UpdateOne ''order'' [(''_id'', VObjectId oid)]
                         [(''status'', VStr (StatusUpdate.status payload))]]\<rparr>))"
  using assms
  by (simp add: update_order_status_def update_one_def update_first_none matches_id)

lemma decoded_updated_fields:
  assumes "is_dict d" and "map_of d ''_id'' = Some (VObjectId oid)"
  shows "map_of (serialize_doc bs (AList.update ''status'' (VStr s) d)) ''status'' = Some (VStr s) \<and>
         map_of (serialize_doc bs (AList.update ''status'' (VStr s) d)) ''id'' =
           Some (VStr (ObjectId_str oid))"
proof -
  have "is_dict (AList.update ''status'' (VStr s) d)"
    using assms(1) by (simp add: is_dict_def distinct_update)
  then show ?thesis
    using assms(2)
    by (simp add: map_of_serialize map_of_rename_id update_conv' convert_value_def)
qed

lemma hex_char:
  "c \<in> set ''0123456789abcdef'' \<Longrightarrow>
   \<not> is_space c \<and> (\<exists>n<16. hex_val c = Some n \<and> hex_digit n = c)"
  by (auto simp: is_space_def hex_val_def hex_digit_def)

lemma hexlify_Cons:
  "hi < 16 \<Longrightarrow> lo < 16 \<Longrightarrow>
   hexlify ((hi * 16 + lo) # bs) = hex_digit hi # hex_digit lo # hexlify bs"
  by (simp add: hexlify_def)

lemma fromhex_hexlify:
  "even (length s) \<Longrightarrow> list_all (\<lambda>c. c \<in> set ''0123456789abcdef'') s \<Longrightarrow>
   \<exists>bs. fromhex s = Some bs \<and> hexlify bs = s"
proof (induction s rule: induct_list012)
  case 1
  then show ?case by (simp add: hexlify_def)
next
  case (2 x)
  then show ?case by simp
next
  case (3 x y zs)
  from "3.prems" have x: "x \<in> set ''0123456789abcdef''" and y: "y \<in> set ''0123456789abcdef''"
    and zs: "even (length zs)" "list_all (\<lambda>c. c \<in> set ''0123456789abcdef'') zs"
    by simp_all
  from hex_char[OF x] obtain hi where
    hi: "\<not> is_space x" "hi < 16" "hex_val x = Some hi" "hex_digit hi = x"
    by blast
  from hex_char[OF y] obtain lo where lo: "lo < 16" "hex_val y = Some lo" "hex_digit lo = y"
    by blast
  from "3.IH"(1)[OF zs] obtain bs where bs: "fromhex zs = Some bs" "hexlify bs = zs" by blast
  have "fromhex (x # y # zs) = Some ((hi * 16 + lo) # bs)"
    using hi lo bs by simp
  moreover have "hexlify ((hi * 16 + lo) # bs) = x # y # zs"
    using hi lo bs by (simp add: hexlify_Cons)
  ultimately show ?case by blast
qed

lemma canonical_id_str:
  assumes "canonical_id s" and "ObjectId_init s = Inr oid"
  shows "ObjectId_str oid = s"
proof -
  from assms(1) have "even (length s)" "list_all (\<lambda>c. c \<in> set ''0123456789abcdef'') s"
    by (simp_all add: canonical_id_def)
  from fromhex_hexlify[OF this] obtain bs where "fromhex s = Some bs" "hexlify bs = s" by blast
  with assms show ?thesis
    by (auto simp: ObjectId_init_def ObjectId_str_def canonical_id_def)
qed

text \<open>
  Claim C2, as amended. For every \<open>order_id\<close> that is not a valid identifier: when the
  store handle is there, the handler raises 400 and makes no store call (the handle
  comes back as it was, its record of calls included); when \<open>db\<close> is \<open>None\<close> it raises
  500, again without a store call. The claim as stated, 400 whether or not \<open>db\<close> is
  \<open>None\<close>, fails because the handler tests \<open>db\<close> first.
\<close>

theorem update_order_status_invalid_id:
  "(\<not> ObjectId_is_valid order_id' \<longrightarrow>
      update_order_status bs (Some st) order_id' payload =
        (Inl (HTTPException 400 ''Invalid order id''), Some st)) \<and>
   update_order_status bs None order_id' payload =
     (Inl (HTTPException 500 ''Database not available''), None)"
  by (simp add: update_order_status_def)

theorem update_order_status_invalid_id_witness:
  "\<not> ObjectId_is_valid ''not-a-valid-id'' \<and>
   update_order_status example_str (Some example_store) ''not-a-valid-id''
       \<lparr>StatusUpdate.status = ''DELIVERED''\<rparr> =
     (Inl (HTTPException 400 ''Invalid order id''), Some example_store)"
proof -
  have h: "\<not> ObjectId_is_valid ''not-a-valid-id''"
    by (simp add: ObjectId_is_valid_def ObjectId_init_def)
  from update_order_status_invalid_id[of "''not-a-valid-id''" example_str example_store
      "\<lparr>StatusUpdate.status = ''DELIVERED''\<rparr>"] h
  show ?thesis by blast
qed

theorem update_order_status_no_db_counterexample:
  "\<not> ObjectId_is_valid ''not-a-valid-id'' \<and>
   update_order_status example_str None ''not-a-valid-id''
       \<lparr>StatusUpdate.status = ''DELIVERED''\<rparr> =
     (Inl (HTTPException 500 ''Database not available''), None)"
  by (simp add: update_order_status_def ObjectId_is_valid_def ObjectId_init_def)

text \<open>
  Claim C3, as amended. With the store handle there, for every valid identifier: if no
  order has it, the handler raises 404 after its one \<open>update_one\<close> call; if one has it,
  the handler returns \<open>serialize_doc\<close> of the first such order with its \<open>status\<close> set to
  the requested status, and the store holds that order so updated. In the record returned
  \<open>status\<close> is exactly the requested status and \<open>id\<close> is the canonical string form of
  the identifier, which is the requested string when that is 24 lower-case hexadecimal
  digits. The claim as stated, \<open>id\<close> equal to the requested identifier, fails for an
  identifier written with upper-case digits: it is valid, and the \<open>id\<close> returned is in
  lower case. Without a store handle the handler raises 500 for every identifier.
\<close>

theorem update_order_status_result:
  assumes "ObjectId_is_valid order_id'" and "ObjectId_init order_id' = Inr oid"
  shows "(\<not> (\<exists>d \<in> set (collections st ''order''). map_of d ''_id'' = Some (VObjectId oid)) \<longrightarrow>
            update_order_status bs (Some st) order_id' payload =
              (Inl (HTTPException 404 ''Order not found''),
               Some (st\<lparr>calls := calls st @
                      [UpdateOne ''order'' [(''_id'', VObjectId oid)]
                         [(''status'', VStr (StatusUpdate.status payload))]]\<rparr>))) \<and>
         (\<forall>pre d post.
            collections st ''order'' = pre @ d # post \<and>
            list_all (\<lambda>x. map_of x ''_id'' \<noteq> Some (VObjectId oid)) pre \<and>
            map_of d ''_id'' = Some (VObjectId oid) \<longrightarrow>
              update_order_status bs (Some st) order_id' payload =
                (Inr (serialize_doc bs
                        (AList.update ''status'' (VStr (StatusUpdate.status payload)) d)),
                 Some (st\<lparr>collections := (collections st)
                          (''order'' :=
                             pre @ AList.update ''status'' (VStr (StatusUpdate.status payload)) d
                               # post),
                        calls := calls st @
                          [UpdateOne ''order'' [(''_id'', VObjectId oid)]
                             [(''status'', VStr (StatusUpdate.status payload))],
                           FindOne ''order'' [(''_id'', VObjectId oid)]]\<rparr>)) \<and>
              (is_dict d \<longrightarrow>
                 map_of (serialize_doc bs
                           (AList.update ''status'' (VStr (StatusUpdate.status payload)) d))
                   ''status'' = Some (VStr (StatusUpdate.status payload)) \<and>
                 map_of (serialize_doc bs
                           (AList.update ''status'' (VStr (StatusUpdate.status payload)) d))
                   ''id'' = Some (VStr (ObjectId_str oid)))) \<and>
         ((\<exists>d \<in> set (collections st ''order''). map_of d ''_id'' = Some (VObjectId oid)) \<longrightarrow>
            (\<exists>pre d post.
               collections st ''order'' = pre @ d # post \<and>
               list_all (\<lambda>x. map_of x ''_id'' \<noteq> Some (VObjectId oid)) pre \<and>
               map_of d ''_id'' = Some (VObjectId oid))) \<and>
         (canonical_id order_id' \<longrightarrow> ObjectId_str oid = order_id')"
proof (intro conjI impI allI)
  assume "\<not> (\<exists>d \<in> set (collections st ''order''). map_of d ''_id'' = Some (VObjectId oid))"
  then have "list_all (\<lambda>d. map_of d ''_id'' \<noteq> Some (VObjectId oid)) (collections st ''order'')"
    by (simp add: list_all_iff)
  with assms show "update_order_status bs (Some st) order_id' payload =
      (Inl (HTTPException 404 ''Order not found''),
       Some (st\<lparr>calls := calls st @
              [UpdateOne ''order'' [(''_id'', VObjectId oid)]
                 [(''status'', VStr (StatusUpdate.status payload))]]\<rparr>))"
    by (rule update_order_status_no_match)
next
  fix pre d post
  assume a: "collections st ''order'' = pre @ d # post \<and>
      list_all (\<lambda>x. map_of x ''_id'' \<noteq> Some (VObjectId oid)) pre \<and>
      map_of d ''_id'' = Some (VObjectId oid)"
  then show "update_order_status bs (Some st) order_id' payload =
      (Inr (serialize_doc bs (AList.update ''status'' (VStr (StatusUpdate.status payload)) d)),
       Some (st\<lparr>collections := (collections st)
                (''order'' :=
                   pre @ AList.update ''status'' (VStr (StatusUpdate.status payload)) d # post),
              calls := calls st @
                [UpdateOne ''order'' [(''_id'', VObjectId oid)]
                   [(''status'', VStr (StatusUpdate.status payload))],
                 FindOne ''order'' [(''_id'', VObjectId oid)]]\<rparr>))"
    using assms by (intro update_order_status_first_match) simp_all
next
  fix pre d post
  assume "collections st ''order'' = pre @ d # post \<and>
      list_all (\<lambda>x. map_of x ''_id'' \<noteq> Some (VObjectId oid)) pre \<and>
      map_of d ''_id'' = Some (VObjectId oid)"
    and "is_dict d"
  then show "map_of (serialize_doc bs
               (AList.update ''status'' (VStr (StatusUpdate.status payload)) d))
        ''status'' = Some (VStr (StatusUpdate.status payload))"
    using decoded_updated_fields[of d oid bs "StatusUpdate.status payload"] by simp
next
  fix pre d post
  assume "collections st ''order'' = pre @ d # post \<and>
      list_all (\<lambda>x. map_of x ''_id'' \<noteq> Some (VObjectId oid)) pre \<and>
      map_of d ''_id'' = Some (VObjectId oid)"
    and "is_dict d"
  then show "map_of (serialize_doc bs
               (AList.update ''status'' (VStr (StatusUpdate.status payload)) d))
        ''id'' = Some (VStr (ObjectId_str oid))"
    using decoded_updated_fields[of d oid bs "StatusUpdate.status payload"] by simp
next
  assume "\<exists>d \<in> set (collections st ''order''). map_of d ''_id'' = Some (VObjectId oid)"
  from first_match_exists[where p="\<lambda>d. map_of d ''_id'' = Some (VObjectId oid)", OF this]
  show "\<exists>pre d post.
      collections st ''order'' = pre @ d # post \<and>
      list_all (\<lambda>x. map_of x ''_id'' \<noteq> Some (VObjectId oid)) pre \<and>
      map_of d ''_id'' = Some (VObjectId oid)" .
next
  assume "canonical_id order_id'"
  then show "ObjectId_str oid = order_id'"
    using assms(2) by (rule canonical_id_str)
qed

theorem update_order_status_result_witness:
  "ObjectId_is_valid ''5f1d7f3e8b3c4a2d9c1e4b7a'' \<and>
   ObjectId_init ''5f1d7f3e8b3c4a2d9c1e4b7a'' = Inr example_oid \<and>
   collections example_store ''order'' = [] @ example_doc # [] \<and>
   map_of example_doc ''_id'' = Some (VObjectId example_oid) \<and>
   is_dict example_doc \<and>
   canonical_id ''5f1d7f3e8b3c4a2d9c1e4b7a'' \<and>
   fst (update_order_status example_str (Some example_store)
          ''5f1d7f3e8b3c4a2d9c1e4b7a'' \<lparr>StatusUpdate.status = ''DELIVERED''\<rparr>) =
     Inr (serialize_doc example_str
            (AList.update ''status'' (VStr ''DELIVERED'') example_doc)) \<and>
   serialize_doc example_str (AList.update ''status'' (VStr ''DELIVERED'') example_doc) =
     [(''customer_id'', VStr ''u1''),
      (''status'', VStr ''DELIVERED''),
      (''created_at'', VStr ''2024-01-02T03:04:05''),
      (''id'', VStr ''5f1d7f3e8b3c4a2d9c1e4b7a'')] \<and>
   map_of (serialize_doc example_str
             (AList.update ''status'' (VStr ''DELIVERED'') example_doc)) ''id'' =
     Some (VStr ''5f1d7f3e8b3c4a2d9c1e4b7a'') \<and>
   ObjectId_is_valid ''000000000000000000000000'' \<and>
   fst (update_order_status example_str (Some example_store)
          ''000000000000000000000000'' \<lparr>StatusUpdate.status = ''DELIVERED''\<rparr>) =
     Inl (HTTPException 404 ''Order not found'')"
proof -
  let ?p = "\<lparr>StatusUpdate.status = ''DELIVERED''\<rparr>"
  have v: "ObjectId_is_valid ''5f1d7f3e8b3c4a2d9c1e4b7a''" by code_simp
  have i: "ObjectId_init ''5f1d7f3e8b3c4a2d9c1e4b7a'' = Inr example_oid" by code_simp
  have s: "collections example_store ''order'' = [] @ example_doc # []"
    by (simp add: example_store_def)
  have m: "map_of example_doc ''_id'' = Some (VObjectId example_oid)"
    by (simp add: example_doc_def)
  have c: "canonical_id ''5f1d7f3e8b3c4a2d9c1e4b7a''"
    by (simp add: canonical_id_def)
  note th = update_order_status_result[OF v i, of example_store example_str ?p]
  from th c have str: "ObjectId_str example_oid = ''5f1d7f3e8b3c4a2d9c1e4b7a''" by blast
  from th have "collections example_store ''order'' = [] @ example_doc # [] \<and>
      list_all (\<lambda>x. map_of x ''_id'' \<noteq> Some (VObjectId example_oid)) [] \<and>
      map_of example_doc ''_id'' = Some (VObjectId example_oid) \<longrightarrow>
      update_order_status example_str (Some example_store) ''5f1d7f3e8b3c4a2d9c1e4b7a'' ?p =
        (Inr (serialize_doc example_str
                (AList.update ''status'' (VStr (StatusUpdate.status ?p)) example_doc)),
         Some (example_store\<lparr>collections := (collections example_store)
                  (''order'' :=
                     [] @ AList.update ''status'' (VStr (StatusUpdate.status ?p)) example_doc # []),
                calls := calls example_store @
                  [UpdateOne ''order'' [(''_id'', VObjectId example_oid)]
                     [(''status'', VStr (StatusUpdate.status ?p))],
                   FindOne ''order'' [(''_id'', VObjectId example_oid)]]\<rparr>)) \<and>
        (is_dict example_doc \<longrightarrow>
           map_of (serialize_doc example_str
                     (AList.update ''status'' (VStr (StatusUpdate.status ?p)) example_doc))
             ''status'' = Some (VStr (StatusUpdate.status ?p)) \<and>
           map_of (serialize_doc example_str
                     (AList.update ''status'' (VStr (StatusUpdate.status ?p)) example_doc))
             ''id'' = Some (VStr (ObjectId_str example_oid)))"
    by blast
  with s m is_dict_example_doc str
  have found: "fst (update_order_status example_str (Some example_store)
          ''5f1d7f3e8b3c4a2d9c1e4b7a'' ?p) =
     Inr (serialize_doc example_str
            (AList.update ''status'' (VStr ''DELIVERED'') example_doc))"
    and idf: "map_of (serialize_doc example_str
             (AList.update ''status'' (VStr ''DELIVERED'') example_doc)) ''id'' =
     Some (VStr ''5f1d7f3e8b3c4a2d9c1e4b7a'')"
    by simp_all
  have val: "serialize_doc example_str (AList.update ''status'' (VStr ''DELIVERED'') example_doc) =
     [(''customer_id'', VStr ''u1''),
      (''status'', VStr ''DELIVERED''),
      (''created_at'', VStr ''2024-01-02T03:04:05''),
      (''id'', VStr ''5f1d7f3e8b3c4a2d9c1e4b7a'')]"
    by code_simp
  have v0: "ObjectId_is_valid ''000000000000000000000000''" by code_simp
  have i0: "ObjectId_init ''000000000000000000000000'' =
      Inr (ObjectId [0, 0, 0, 0, 0, 0, 0, 0, 0, 0, 0, 0])" by code_simp
  have n0: "\<not> (\<exists>d \<in> set (collections example_store ''order'').
      map_of d ''_id'' = Some (VObjectId (ObjectId [0, 0, 0, 0, 0, 0, 0, 0, 0, 0, 0, 0])))"
    by (simp add: example_store_def example_doc_def example_oid_def)
  from update_order_status_result[OF v0 i0, of example_store example_str ?p] n0
  have missing: "fst (update_order_status example_str (Some example_store)
          ''000000000000000000000000'' ?p) = Inl (HTTPException 404 ''Order not found'')"
    by simp
  from v i s m is_dict_example_doc c found val idf v0 missing show ?thesis by blast
qed

theorem update_order_status_upper_case_counterexample:
  "ObjectId_is_valid ''5F1D7F3E8B3C4A2D9C1E4B7A'' \<and>
   fst (update_order_status example_str (Some example_store)
          ''5F1D7F3E8B3C4A2D9C1E4B7A'' \<lparr>StatusUpdate.status = ''DELIVERED''\<rparr>) =
     Inr [(''customer_id'', VStr ''u1''),
          (''status'', VStr ''DELIVERED''),
          (''created_at'', VStr ''2024-01-02T03:04:05''),
          (''id'', VStr ''5f1d7f3e8b3c4a2d9c1e4b7a'')] \<and>
   fst (update_order_status example_str None
          ''5f1d7f3e8b3c4a2d9c1e4b7a'' \<lparr>StatusUpdate.status = ''DELIVERED''\<rparr>) =
     Inl (HTTPException 500 ''Database not available'')"
  by code_simp

section \<open>The schemas, verified\<close>

lemma ap_Inr_iff: "ap f x = Inr y \<longleftrightarrow> (\<exists>g a. f = Inr g \<and> x = Inr a \<and> y = g a)"
  by (cases f; cases x) auto

lemma isl_ap: "isl (ap f x) \<longleftrightarrow> isl f \<or> isl x"
  by (cases f; cases x) auto

lemma isl_at_loc: "isl (at_loc l r) = isl r"
  by (cases r) auto

lemma at_loc_Inr_iff: "at_loc l r = Inr x \<longleftrightarrow> r = Inr x"
  by (cases r) auto

lemma construct_Inr_iff: "construct r = Inr x \<longleftrightarrow> r = Inr x"
  by (cases r) (auto simp: construct_def)

lemma construct_Inl_iff: "(\<exists>errs. construct r = Inl (ValidationError errs)) \<longleftrightarrow> isl r"
  by (cases r) (auto simp: construct_def)

lemma with_default_absent: "map_of kw k = None \<Longrightarrow> with_default kw k d val = Inr d"
  by (simp add: with_default_def)

lemma with_default_present:
  "map_of kw k = Some v \<Longrightarrow> with_default kw k d val = at_loc (Key k) (val v)"
  by (simp add: with_default_def)

lemma required_present:
  "map_of kw k = Some v \<Longrightarrow> required kw k val = at_loc (Key k) (val v)"
  by (simp add: required_def)

lemma ge_float_below: "number_below b v \<Longrightarrow> isl (ge b (float_validator lx v))"
  by (cases v) (auto simp: ge_def split: option.splits)

lemma ge_int_below: "number_below 1 v \<Longrightarrow> isl (ge 1 (int_validator lx v))"
proof (cases v)
  case (VFloat x)
  assume "number_below 1 v"
  with VFloat have "x < 1" by simp
  then have "\<lfloor>x\<rfloor> < 1" by linarith
  with VFloat show ?thesis by (simp add: ge_def)
qed (auto simp: ge_def split: option.splits)

lemma isl_validate_items:
  "v \<in> set vs \<Longrightarrow> isl (val v) \<Longrightarrow> isl (validate_items val i vs)"
  by (induction vs arbitrary: i) (auto simp: isl_ap isl_at_loc)

lemma literal_validator_Inr_iff:
  "literal_validator expected v = Inr s \<longleftrightarrow> v = VStr s \<and> s \<in> set expected"
  by (cases v) auto

lemma ge_Inr_iff: "ge b r = Inr x \<longleftrightarrow> r = Inr x \<and> \<not> x < b"
  by (cases r) (auto simp: ge_def)

lemma validate_items_Inr:
  "validate_items val i vs = Inr xs \<Longrightarrow> \<forall>x \<in> set xs. \<exists>v \<in> set vs. val v = Inr x"
proof (induction vs arbitrary: i xs)
  case Nil
  then show ?case by simp
next
  case (Cons a vs)
  from Cons.prems obtain y ys where
    y: "val a = Inr y" and ys: "validate_items val (Suc i) vs = Inr ys" and xs: "xs = y # ys"
    by (auto simp: ap_Inr_iff at_loc_Inr_iff)
  from Cons.IH[OF ys] have "\<forall>x \<in> set ys. \<exists>v \<in> set vs. val v = Inr x" .
  with y xs show ?case by auto
qed

lemma list_validator_Inr:
  "list_validator val v = Inr xs \<Longrightarrow> \<forall>x \<in> set xs. \<exists>w. val w = Inr x"
  by (cases v) (auto dest: validate_items_Inr)

lemma model_validator_Inr: "model_validator val v = Inr x \<Longrightarrow> \<exists>kw. val kw = Inr x"
  by (cases v) auto

lemma with_default_Inr:
  "with_default kw k d val = Inr x \<Longrightarrow> x = d \<or> (\<exists>v. val v = Inr x)"
  by (auto simp: with_default_def at_loc_Inr_iff split: option.splits)

lemma required_Inr: "required kw k val = Inr x \<Longrightarrow> \<exists>v. val v = Inr x"
  by (auto simp: required_def at_loc_Inr_iff split: option.splits)

lemma OrderItem_invariant:
  assumes "OrderItem_validate lx kw = Inr i"
  shows "1 \<le> quantity i \<and> 0 \<le> price i"
proof -
  from assms obtain n q p where
    q: "required kw ''quantity'' (\<lambda>v. ge 1 (int_validator lx v)) = Inr q" and
    p: "required kw ''price'' (\<lambda>v. ge 0 (float_validator lx v)) = Inr p" and
    i: "i = \<lparr>OrderItem.name = n, quantity = q, price = p\<rparr>"
    by (auto simp: OrderItem_validate_def ap_Inr_iff)
  from required_Inr[OF q] have "1 \<le> q" by (auto simp: ge_Inr_iff)
  moreover from required_Inr[OF p] have "0 \<le> p" by (auto simp: ge_Inr_iff)
  ultimately show ?thesis using i by simp
qed

lemma Order_invariant:
  assumes "Order_validate lx kw = Inr ord"
  shows "0 \<le> total ord \<and> (\<forall>i \<in> set (items ord). 1 \<le> quantity i \<and> 0 \<le> price i)"
proof -
  from assms obtain its t where
    its: "with_default kw ''items'' []
            (list_validator (model_validator (OrderItem_validate lx))) = Inr its" and
    t: "with_default kw ''total'' 0 (\<lambda>v. ge 0 (float_validator lx v)) = Inr t" and
    o: "items ord = its" "total ord = t"
    by (auto simp: Order_validate_def ap_Inr_iff)
  from with_default_Inr[OF t] have "0 \<le> t" by (auto simp: ge_Inr_iff)
  moreover have "\<forall>i \<in> set its. 1 \<le> quantity i \<and> 0 \<le> price i"
  proof
    fix i assume "i \<in> set its"
    with with_default_Inr[OF its] obtain v where
      "list_validator (model_validator (OrderItem_validate lx)) v = Inr its" by auto
    from list_validator_Inr[OF this] \<open>i \<in> set its\<close> obtain w where
      "model_validator (OrderItem_validate lx) w = Inr i" by blast
    from model_validator_Inr[OF this] obtain kw' where "OrderItem_validate lx kw' = Inr i" by blast
    then show "1 \<le> quantity i \<and> 0 \<le> price i" by (rule OrderItem_invariant)
  qed
  ultimately show ?thesis using o by simp
qed

lemma Payment_invariant:
  assumes "Payment_validate lx kw = Inr p"
  shows "0 \<le> amount p"
proof -
  from assms obtain a where
    a: "required kw ''amount'' (\<lambda>v. ge 0 (float_validator lx v)) = Inr a" and
    p: "amount p = a"
    by (auto simp: Payment_validate_def ap_Inr_iff)
  from required_Inr[OF a] have "0 \<le> a" by (auto simp: ge_Inr_iff)
  with p show ?thesis by simp
qed

lemma ge_float_reads_below:
  "number_below b v \<or> float_reads_below lx b v \<Longrightarrow> isl (ge b (float_validator lx v))"
  using ge_float_below[of b v lx]
  by (auto simp: float_reads_below_def ge_def split: sum.splits)

lemma ge_int_reads_below:
  "number_below 1 v \<or> int_reads_below lx 1 v \<Longrightarrow> isl (ge 1 (int_validator lx v))"
  using ge_int_below[of v lx]
  by (auto simp: int_reads_below_def ge_def split: sum.splits)

lemma OrderItem_rejects_reads:
  assumes "(map_of it ''price'' = Some v \<and> (number_below 0 v \<or> float_reads_below lx 0 v)) \<or>
           (map_of it ''quantity'' = Some v \<and> (number_below 1 v \<or> int_reads_below lx 1 v))"
  shows "isl (OrderItem_validate lx it)"
  using assms
  by (auto simp: OrderItem_validate_def isl_ap required_present isl_at_loc
      ge_float_reads_below ge_int_reads_below)

lemma Order_rejects_total_reads:
  "map_of kw ''total'' = Some v \<Longrightarrow> number_below 0 v \<or> float_reads_below lx 0 v \<Longrightarrow>
   isl (Order_validate lx kw)"
  by (simp add: Order_validate_def isl_ap with_default_present isl_at_loc ge_float_reads_below)

lemma Payment_rejects_amount_reads:
  "map_of kw ''amount'' = Some v \<Longrightarrow> number_below 0 v \<or> float_reads_below lx 0 v \<Longrightarrow>
   isl (Payment_validate lx kw)"
  by (simp add: Payment_validate_def isl_ap required_present isl_at_loc ge_float_reads_below)

lemma Order_rejects_item:
  assumes "map_of kw ''items'' = Some (VList its)" and "VDict it \<in> set its"
    and "isl (OrderItem_validate lx it)"
  shows "isl (Order_validate lx kw)"
proof -
  have "isl (list_validator (model_validator (OrderItem_validate lx)) (VList its))"
    using assms(2,3)
      isl_validate_items[of "VDict it" its "model_validator (OrderItem_validate lx)" 0]
    by simp
  then show ?thesis
    using assms(1) by (simp add: Order_validate_def isl_ap with_default_present isl_at_loc)
qed

lemma Order_rejects_status:
  "map_of kw ''status'' = Some (VStr s) \<Longrightarrow> s \<notin> set Order_status_annotation \<Longrightarrow>
   isl (Order_validate lx kw)"
  by (simp add: Order_validate_def isl_ap with_default_present isl_at_loc)

lemma StatusUpdate_rejects_status:
  "map_of kw ''status'' = Some (VStr s) \<Longrightarrow> s \<notin> set Order_status_annotation \<Longrightarrow>
   isl (StatusUpdate_validate kw)"
  by (simp add: StatusUpdate_validate_def isl_ap required_present isl_at_loc)

lemma Order_default_fields:
  assumes "Order_validate lx kw = Inr ord"
  shows "(map_of kw ''status'' = None \<longrightarrow> Order.status ord = ''PENDING'') \<and>
         (map_of kw ''payment_method'' = None \<longrightarrow> payment_method ord = ''cod'') \<and>
         (map_of kw ''total'' = None \<longrightarrow> total ord = 0)"
  using assms
  by (auto simp: Order_validate_def ap_Inr_iff with_default_absent)

lemma Order_status_accepted:
  assumes "Order_validate lx kw = Inr ord" and "map_of kw ''status'' = Some v"
  shows "v = VStr (Order.status ord) \<and> Order.status ord \<in> set Order_status_annotation"
  using assms
  by (auto simp: Order_validate_def ap_Inr_iff with_default_present at_loc_Inr_iff
      literal_validator_Inr_iff)

lemma StatusUpdate_accepts_iff:
  "StatusUpdate_validate kw = Inr p \<longleftrightarrow>
     (map_of kw ''status'' = Some (VStr (StatusUpdate.status p)) \<and>
      StatusUpdate.status p \<in> set Order_status_annotation)"
  by (cases p)
    (auto simp: StatusUpdate_validate_def ap_Inr_iff required_def at_loc_Inr_iff
      literal_validator_Inr_iff split: option.splits)

lemma Order_accepts_status:
  assumes "s \<in> set Order_status_annotation"
  shows "\<exists>ord. Order_validate lx
           [(''customer_id'', VStr ''u1''), (''service_type'', VStr ''wash_fold''),
            (''pickup_address'', VStr ''a''), (''delivery_address'', VStr ''b''),
            (''status'', VStr s)] = Inr ord"
  using assms
  by (simp add: Order_validate_def required_def with_default_def)

lemma User_default_fields:
  assumes "User_validate lx kw = Inr u"
  shows "(map_of kw ''is_active'' = None \<longrightarrow> is_active u) \<and>
         (map_of kw ''role'' = None \<longrightarrow> role u = ''customer'')"
  using assms
  by (auto simp: User_validate_def ap_Inr_iff with_default_absent)

lemma Driver_default_fields:
  assumes "Driver_validate lx kw = Inr u"
  shows "map_of kw ''is_available'' = None \<longrightarrow> is_available u"
  using assms
  by (auto simp: Driver_validate_def ap_Inr_iff with_default_absent)

lemma Payment_default_fields:
  assumes "Payment_validate lx kw = Inr u"
  shows "map_of kw ''status'' = None \<longrightarrow> Payment.status u = ''PENDING''"
  using assms
  by (auto simp: Payment_validate_def ap_Inr_iff with_default_absent)

lemma example_order_init: "Order_init example_lax example_order_body = Inr example_order"
  by code_simp

text \<open>
  Claim C5. Constructing an \<open>Order\<close> whose \<open>total\<close> is, or is read by validation as, a
  negative number, or one of whose items has such a \<open>price\<close> or a \<open>quantity\<close> below 1,
  constructing a \<open>Payment\<close> with such an \<open>amount\<close>, and constructing such an \<open>OrderItem\<close>
  on its own all raise \<open>ValidationError\<close>, whatever the other fields are. No such record
  is constructed: every \<open>Order\<close>, \<open>Payment\<close> and \<open>OrderItem\<close> that construction returns
  has a total, prices and an amount of at least 0 and quantities of at least 1.
\<close>

theorem negative_values_rejected:
  "(map_of kw ''total'' = Some v \<and> (number_below 0 v \<or> float_reads_below lx 0 v) \<longrightarrow>
      (\<exists>errs. Order_init lx kw = Inl (ValidationError errs))) \<and>
   (map_of kw ''items'' = Some (VList its) \<and> VDict it \<in> set its \<and>
    map_of it ''price'' = Some v \<and> (number_below 0 v \<or> float_reads_below lx 0 v) \<longrightarrow>
      (\<exists>errs. Order_init lx kw = Inl (ValidationError errs))) \<and>
   (map_of kw ''items'' = Some (VList its) \<and> VDict it \<in> set its \<and>
    map_of it ''quantity'' = Some v \<and> (number_below 1 v \<or> int_reads_below lx 1 v) \<longrightarrow>
      (\<exists>errs. Order_init lx kw = Inl (ValidationError errs))) \<and>
   (map_of kw ''amount'' = Some v \<and> (number_below 0 v \<or> float_reads_below lx 0 v) \<longrightarrow>
      (\<exists>errs. Payment_init lx kw = Inl (ValidationError errs))) \<and>
   (map_of it ''price'' = Some v \<and> (number_below 0 v \<or> float_reads_below lx 0 v) \<longrightarrow>
      (\<exists>errs. OrderItem_init lx it = Inl (ValidationError errs))) \<and>
   (map_of it ''quantity'' = Some v \<and> (number_below 1 v \<or> int_reads_below lx 1 v) \<longrightarrow>
      (\<exists>errs. OrderItem_init lx it = Inl (ValidationError errs))) \<and>
   (Order_init lx kw = Inr ord \<longrightarrow>
      0 \<le> total ord \<and> (\<forall>i \<in> set (items ord). 1 \<le> quantity i \<and> 0 \<le> price i)) \<and>
   (Payment_init lx kw = Inr pay \<longrightarrow> 0 \<le> amount pay) \<and>
   (OrderItem_init lx it = Inr item \<longrightarrow> 1 \<le> quantity item \<and> 0 \<le> price item)"
proof (intro conjI impI)
  assume "map_of kw ''total'' = Some v \<and> (number_below 0 v \<or> float_reads_below lx 0 v)"
  then have "isl (Order_validate lx kw)" by (simp add: Order_rejects_total_reads)
  then show "\<exists>errs. Order_init lx kw = Inl (ValidationError errs)"
    by (simp add: Order_init_def construct_Inl_iff)
next
  assume a: "map_of kw ''items'' = Some (VList its) \<and> VDict it \<in> set its \<and>
    map_of it ''price'' = Some v \<and> (number_below 0 v \<or> float_reads_below lx 0 v)"
  then have "isl (OrderItem_validate lx it)" using OrderItem_rejects_reads[of it v lx] by blast
  with a have "isl (Order_validate lx kw)" by (blast intro: Order_rejects_item)
  then show "\<exists>errs. Order_init lx kw = Inl (ValidationError errs)"
    by (simp add: Order_init_def construct_Inl_iff)
next
  assume a: "map_of kw ''items'' = Some (VList its) \<and> VDict it \<in> set its \<and>
    map_of it ''quantity'' = Some v \<and> (number_below 1 v \<or> int_reads_below lx 1 v)"
  then have "isl (OrderItem_validate lx it)" using OrderItem_rejects_reads[of it v lx] by blast
  with a have "isl (Order_validate lx kw)" by (blast intro: Order_rejects_item)
  then show "\<exists>errs. Order_init lx kw = Inl (ValidationError errs)"
    by (simp add: Order_init_def construct_Inl_iff)
next
  assume "map_of kw ''amount'' = Some v \<and> (number_below 0 v \<or> float_reads_below lx 0 v)"
  then have "isl (Payment_validate lx kw)" by (simp add: Payment_rejects_amount_reads)
  then show "\<exists>errs. Payment_init lx kw = Inl (ValidationError errs)"
    by (simp add: Payment_init_def construct_Inl_iff)
next
  assume "map_of it ''price'' = Some v \<and> (number_below 0 v \<or> float_reads_below lx 0 v)"
  then have "isl (OrderItem_validate lx it)" using OrderItem_rejects_reads[of it v lx] by blast
  then show "\<exists>errs. OrderItem_init lx it = Inl (ValidationError errs)"
    by (simp add: OrderItem_init_def construct_Inl_iff)
next
  assume "map_of it ''quantity'' = Some v \<and> (number_below 1 v \<or> int_reads_below lx 1 v)"
  then have "isl (OrderItem_validate lx it)" using OrderItem_rejects_reads[of it v lx] by blast
  then show "\<exists>errs. OrderItem_init lx it = Inl (ValidationError errs)"
    by (simp add: OrderItem_init_def construct_Inl_iff)
next
  assume "Order_init lx kw = Inr ord"
  then have "Order_validate lx kw = Inr ord" by (simp add: Order_init_def construct_Inr_iff)
  from Order_invariant[OF this] show "0 \<le> total ord" by simp
next
  assume "Order_init lx kw = Inr ord"
  then have "Order_validate lx kw = Inr ord" by (simp add: Order_init_def construct_Inr_iff)
  from Order_invariant[OF this]
  show "\<forall>i \<in> set (items ord). 1 \<le> quantity i \<and> 0 \<le> price i" by simp
next
  assume "Payment_init lx kw = Inr pay"
  then have "Payment_validate lx kw = Inr pay" by (simp add: Payment_init_def construct_Inr_iff)
  then show "0 \<le> amount pay" by (rule Payment_invariant)
next
  assume "OrderItem_init lx it = Inr item"
  then have "OrderItem_validate lx it = Inr item"
    by (simp add: OrderItem_init_def construct_Inr_iff)
  from OrderItem_invariant[OF this] show "1 \<le> quantity item" by simp
next
  assume "OrderItem_init lx it = Inr item"
  then have "OrderItem_validate lx it = Inr item"
    by (simp add: OrderItem_init_def construct_Inr_iff)
  from OrderItem_invariant[OF this] show "0 \<le> price item" by simp
qed

theorem negative_values_rejected_witness:
  "number_below 0 (VFloat (- 1 / 2)) \<and> number_below 0 (VInt (- 5)) \<and>
   number_below 1 (VInt 0) \<and> float_reads_below minus_five_lax 0 (VStr ''-5'') \<and>
   int_reads_below minus_five_lax 1 (VStr ''-5'') \<and>
   (\<exists>errs. Order_init example_lax ((''total'', VFloat (- 1 / 2)) # example_order_body) =
      Inl (ValidationError errs)) \<and>
   (\<exists>errs. Order_init example_lax (order_body_with_item (VInt 2) (VInt (- 5))) =
      Inl (ValidationError errs)) \<and>
   (\<exists>errs. Order_init example_lax (order_body_with_item (VInt 0) (VInt 5)) =
      Inl (ValidationError errs)) \<and>
   (\<exists>errs. Payment_init minus_five_lax
        [(''order_id'', VStr ''o1''), (''amount'', VStr ''-5''), (''method'', VStr ''cod'')] =
      Inl (ValidationError errs)) \<and>
   (\<exists>errs. OrderItem_init example_lax
        [(''name'', VStr ''Shirt''), (''quantity'', VInt 2), (''price'', VInt (- 5))] =
      Inl (ValidationError errs)) \<and>
   (\<exists>errs. OrderItem_init minus_five_lax
        [(''name'', VStr ''Shirt''), (''quantity'', VStr ''-5''), (''price'', VInt 5)] =
      Inl (ValidationError errs)) \<and>
   Order_init example_lax example_order_body = Inr example_order \<and>
   0 \<le> total example_order \<and>
   list_all (\<lambda>i. 1 \<le> quantity i \<and> 0 \<le> price i) (items example_order) \<and>
   Payment_init example_lax
     [(''order_id'', VStr ''o1''), (''amount'', VFloat (25 / 2)), (''method'', VStr ''card'')] =
     Inr example_payment \<and>
   0 \<le> amount example_payment \<and>
   OrderItem_init example_lax
     [(''name'', VStr ''Shirt''), (''quantity'', VInt 2), (''price'', VInt 5)] =
     Inr \<lparr>OrderItem.name = ''Shirt'', quantity = 2, price = 5\<rparr>"
proof -
  let ?kp = "[(''order_id'', VStr ''o1''), (''amount'', VFloat (25 / 2)),
              (''method'', VStr ''card'')]"
  let ?ki = "[(''name'', VStr ''Shirt''), (''quantity'', VInt 2), (''price'', VInt 5)]"
  have n1: "number_below 0 (VFloat (- 1 / 2))" by simp
  have n2: "number_below 0 (VInt (- 5))" by simp
  have n3: "number_below 1 (VInt 0)" by simp
  have n4: "float_reads_below minus_five_lax 0 (VStr ''-5'')"
    by (simp add: float_reads_below_def minus_five_lax_def)
  have n5: "int_reads_below minus_five_lax 1 (VStr ''-5'')"
    by (simp add: int_reads_below_def minus_five_lax_def)
  have a: "\<exists>errs. Order_init example_lax ((''total'', VFloat (- 1 / 2)) # example_order_body) =
      Inl (ValidationError errs)"
    using negative_values_rejected[of "(''total'', VFloat (- 1 / 2)) # example_order_body"
        "VFloat (- 1 / 2)" example_lax] n1
    by simp
  have b: "\<exists>errs. Order_init example_lax (order_body_with_item (VInt 2) (VInt (- 5))) =
      Inl (ValidationError errs)"
    using negative_values_rejected[of "order_body_with_item (VInt 2) (VInt (- 5))"
        "VInt (- 5)" example_lax
        "[VDict [(''name'', VStr ''Shirt''), (''quantity'', VInt 2), (''price'', VInt (- 5))]]"
        "[(''name'', VStr ''Shirt''), (''quantity'', VInt 2), (''price'', VInt (- 5))]"]
    by (simp add: order_body_with_item_def)
  have c: "\<exists>errs. Order_init example_lax (order_body_with_item (VInt 0) (VInt 5)) =
      Inl (ValidationError errs)"
    using negative_values_rejected[of "order_body_with_item (VInt 0) (VInt 5)"
        "VInt 0" example_lax
        "[VDict [(''name'', VStr ''Shirt''), (''quantity'', VInt 0), (''price'', VInt 5)]]"
        "[(''name'', VStr ''Shirt''), (''quantity'', VInt 0), (''price'', VInt 5)]"]
    by (simp add: order_body_with_item_def)
  have d: "\<exists>errs. Payment_init minus_five_lax
        [(''order_id'', VStr ''o1''), (''amount'', VStr ''-5''), (''method'', VStr ''cod'')] =
      Inl (ValidationError errs)"
    using negative_values_rejected[of
        "[(''order_id'', VStr ''o1''), (''amount'', VStr ''-5''), (''method'', VStr ''cod'')]"
        "VStr ''-5''" minus_five_lax] n4
    by simp
  have e: "\<exists>errs. OrderItem_init example_lax
        [(''name'', VStr ''Shirt''), (''quantity'', VInt 2), (''price'', VInt (- 5))] =
      Inl (ValidationError errs)"
    using negative_values_rejected[of _ "VInt (- 5)" example_lax _
        "[(''name'', VStr ''Shirt''), (''quantity'', VInt 2), (''price'', VInt (- 5))]"]
    by simp
  have f: "\<exists>errs. OrderItem_init minus_five_lax
        [(''name'', VStr ''Shirt''), (''quantity'', VStr ''-5''), (''price'', VInt 5)] =
      Inl (ValidationError errs)"
    using negative_values_rejected[of _ "VStr ''-5''" minus_five_lax _
        "[(''name'', VStr ''Shirt''), (''quantity'', VStr ''-5''), (''price'', VInt 5)]"] n5
    by simp
  have p: "Payment_init example_lax ?kp = Inr example_payment" by code_simp
  have i: "OrderItem_init example_lax ?ki =
      Inr \<lparr>OrderItem.name = ''Shirt'', quantity = 2, price = 5\<rparr>" by code_simp
  from negative_values_rejected[of example_order_body _ example_lax _ _ example_order]
    example_order_init
  have o: "0 \<le> total example_order"
    "list_all (\<lambda>i. 1 \<le> quantity i \<and> 0 \<le> price i) (items example_order)"
    by (simp_all add: list_all_iff)
  from negative_values_rejected[of ?kp _ example_lax _ _ _ example_payment] p
  have q: "0 \<le> amount example_payment" by simp
  from n1 n2 n3 n4 n5 a b c d e f example_order_init o p q i show ?thesis by blast
qed

text \<open>
  Claim C6. The status enum of \<open>Order\<close> is PENDING, DRIVER_ASSIGNED, PICKED_UP, IN_WASH,
  OUT_FOR_DELIVERY, DELIVERED. A status string outside it makes the construction of an
  \<open>Order\<close> and of a \<open>StatusUpdate\<close> payload raise \<open>ValidationError\<close>, and the status values
  with which some payload is accepted are exactly those with which some \<open>Order\<close> is.
\<close>

theorem status_outside_enum_rejected:
  "Order_status_annotation =
     [''PENDING'', ''DRIVER_ASSIGNED'', ''PICKED_UP'', ''IN_WASH'', ''OUT_FOR_DELIVERY'',
      ''DELIVERED''] \<and>
   (s \<notin> set Order_status_annotation \<and> map_of kw ''status'' = Some (VStr s) \<longrightarrow>
      (\<exists>errs. Order_init lx kw = Inl (ValidationError errs))) \<and>
   (s \<notin> set Order_status_annotation \<and> map_of kw ''status'' = Some (VStr s) \<longrightarrow>
      (\<exists>errs. StatusUpdate_init kw = Inl (ValidationError errs))) \<and>
   {v. \<exists>kw' p. map_of kw' ''status'' = Some v \<and> StatusUpdate_init kw' = Inr p} =
   {v. \<exists>kw' ord. map_of kw' ''status'' = Some v \<and> Order_init lx kw' = Inr ord}"
proof (intro conjI impI)
  show "Order_status_annotation =
     [''PENDING'', ''DRIVER_ASSIGNED'', ''PICKED_UP'', ''IN_WASH'', ''OUT_FOR_DELIVERY'',
      ''DELIVERED'']"
    by (rule Order_status_annotation_def)
next
  assume "s \<notin> set Order_status_annotation \<and> map_of kw ''status'' = Some (VStr s)"
  then have "isl (Order_validate lx kw)" by (simp add: Order_rejects_status)
  then show "\<exists>errs. Order_init lx kw = Inl (ValidationError errs)"
    by (simp add: Order_init_def construct_Inl_iff)
next
  assume "s \<notin> set Order_status_annotation \<and> map_of kw ''status'' = Some (VStr s)"
  then have "isl (StatusUpdate_validate kw)" by (simp add: StatusUpdate_rejects_status)
  then show "\<exists>errs. StatusUpdate_init kw = Inl (ValidationError errs)"
    by (simp add: StatusUpdate_init_def construct_Inl_iff)
next
  have upd: "{v. \<exists>kw' p. map_of kw' ''status'' = Some v \<and> StatusUpdate_init kw' = Inr p} =
      VStr ` set Order_status_annotation"
  proof (intro set_eqI iffI)
    fix v
    assume "v \<in> {v. \<exists>kw' p. map_of kw' ''status'' = Some v \<and> StatusUpdate_init kw' = Inr p}"
    then show "v \<in> VStr ` set Order_status_annotation"
      by (auto simp: StatusUpdate_init_def construct_Inr_iff StatusUpdate_accepts_iff)
  next
    fix v
    assume "v \<in> VStr ` set Order_status_annotation"
    then obtain s' where s': "v = VStr s'" "s' \<in> set Order_status_annotation" by blast
    then have "map_of [(''status'', v)] ''status'' = Some v \<and>
        StatusUpdate_init [(''status'', v)] = Inr \<lparr>StatusUpdate.status = s'\<rparr>"
      by (simp add: StatusUpdate_init_def construct_Inr_iff StatusUpdate_accepts_iff)
    then show "v \<in> {v. \<exists>kw' p. map_of kw' ''status'' = Some v \<and> StatusUpdate_init kw' = Inr p}"
      by blast
  qed
  have ord: "{v. \<exists>kw' ord. map_of kw' ''status'' = Some v \<and> Order_init lx kw' = Inr ord} =
      VStr ` set Order_status_annotation"
  proof (intro set_eqI iffI)
    fix v
    assume "v \<in> {v. \<exists>kw' ord. map_of kw' ''status'' = Some v \<and> Order_init lx kw' = Inr ord}"
    then show "v \<in> VStr ` set Order_status_annotation"
      by (auto simp: Order_init_def construct_Inr_iff dest: Order_status_accepted)
  next
    fix v
    assume "v \<in> VStr ` set Order_status_annotation"
    then obtain s' where s': "v = VStr s'" "s' \<in> set Order_status_annotation" by blast
    from Order_accepts_status[OF s'(2), of lx] obtain ord where
      "Order_validate lx
           [(''customer_id'', VStr ''u1''), (''service_type'', VStr ''wash_fold''),
            (''pickup_address'', VStr ''a''), (''delivery_address'', VStr ''b''),
            (''status'', VStr s')] = Inr ord"
      by blast
    with s'(1) have "map_of [(''customer_id'', VStr ''u1''), (''service_type'', VStr ''wash_fold''),
            (''pickup_address'', VStr ''a''), (''delivery_address'', VStr ''b''),
            (''status'', VStr s')] ''status'' = Some v \<and>
       Order_init lx [(''customer_id'', VStr ''u1''), (''service_type'', VStr ''wash_fold''),
            (''pickup_address'', VStr ''a''), (''delivery_address'', VStr ''b''),
            (''status'', VStr s')] = Inr ord"
      by (simp add: Order_init_def construct_Inr_iff)
    then show "v \<in> {v. \<exists>kw' ord. map_of kw' ''status'' = Some v \<and> Order_init lx kw' = Inr ord}"
      by blast
  qed
  from upd ord
  show "{v. \<exists>kw' p. map_of kw' ''status'' = Some v \<and> StatusUpdate_init kw' = Inr p} =
      {v. \<exists>kw' ord. map_of kw' ''status'' = Some v \<and> Order_init lx kw' = Inr ord}"
    by simp
qed

theorem status_outside_enum_rejected_witness:
  "''CANCELLED'' \<notin> set Order_status_annotation \<and>
   (\<exists>errs. Order_init example_lax ((''status'', VStr ''CANCELLED'') # example_order_body) =
      Inl (ValidationError errs)) \<and>
   (\<exists>errs. StatusUpdate_init [(''status'', VStr ''CANCELLED'')] = Inl (ValidationError errs)) \<and>
   StatusUpdate_init [(''status'', VStr ''DELIVERED'')] =
     Inr \<lparr>StatusUpdate.status = ''DELIVERED''\<rparr>"
proof -
  have n: "''CANCELLED'' \<notin> set Order_status_annotation"
    by (simp add: Order_status_annotation_def)
  have a: "\<exists>errs. Order_init example_lax ((''status'', VStr ''CANCELLED'') # example_order_body) =
      Inl (ValidationError errs)"
    using status_outside_enum_rejected[of "''CANCELLED''"
        "(''status'', VStr ''CANCELLED'') # example_order_body" example_lax] n
    by simp
  have b: "\<exists>errs. StatusUpdate_init [(''status'', VStr ''CANCELLED'')] =
      Inl (ValidationError errs)"
    using status_outside_enum_rejected[of "''CANCELLED''" "[(''status'', VStr ''CANCELLED'')]"] n
    by simp
  have c: "StatusUpdate_init [(''status'', VStr ''DELIVERED'')] =
     Inr \<lparr>StatusUpdate.status = ''DELIVERED''\<rparr>"
    by code_simp
  from n a b c show ?thesis by blast
qed

text \<open>
  Claim C7. For every valid \<open>Order\<close> body: when \<open>create_document\<close> returns an identifier,
  \<open>create_order\<close> answers 201 with exactly the fields \<open>id\<close>, that identifier, and
  \<open>status\<close>, the status of the order, which is PENDING when the body has no \<open>status\<close>;
  when \<open>create_document\<close> raises, the handler raises a 500 error carrying the message.
\<close>

theorem create_order_response:
  "(create_document ''order'' order = Inr oid \<longrightarrow>
      create_order create_document order =
        Inr (201, [(''id'', VStr oid), (''status'', VStr (Order.status order))])) \<and>
   (create_document ''order'' order = Inl e \<longrightarrow>
      create_order create_document order = Inl (HTTPException 500 (exn_str e))) \<and>
   (Order_init lx body = Inr order \<and> map_of body ''status'' = None \<longrightarrow>
      Order.status order = ''PENDING'')"
  using Order_default_fields[of lx body order]
  by (simp add: create_order_def Order_init_def construct_Inr_iff)

theorem create_order_response_witness:
  "Order_init example_lax example_order_body = Inr example_order \<and>
   map_of example_order_body ''status'' = None \<and>
   create_order example_create_document example_order =
     Inr (201, [(''id'', VStr ''5f1d7f3e8b3c4a2d9c1e4b7a''), (''status'', VStr ''PENDING'')]) \<and>
   create_order failing_create_document example_order =
     Inl (HTTPException 500 ''Database not available'')"
proof -
  have n: "map_of example_order_body ''status'' = None"
    by (simp add: example_order_body_def)
  note th = create_order_response[of _ example_order _ _ example_lax example_order_body]
  from th example_order_init n have st: "Order.status example_order = ''PENDING''"
    by blast
  have ok: "example_create_document ''order'' example_order = Inr ''5f1d7f3e8b3c4a2d9c1e4b7a''"
    by (simp add: example_create_document_def)
  have bad: "failing_create_document ''order'' example_order =
      Inl (Exception ''Database not available'')"
    by (simp add: failing_create_document_def)
  from create_order_response[of example_create_document example_order
      "''5f1d7f3e8b3c4a2d9c1e4b7a''"] ok st
  have a: "create_order example_create_document example_order =
     Inr (201, [(''id'', VStr ''5f1d7f3e8b3c4a2d9c1e4b7a''), (''status'', VStr ''PENDING'')])"
    by simp
  from create_order_response[of failing_create_document example_order _
      "Exception ''Database not available''"] bad
  have b: "create_order failing_create_document example_order =
     Inl (HTTPException 500 ''Database not available'')"
    by simp
  from example_order_init n a b show ?thesis by blast
qed

text \<open>
  Claim C8. A record constructed without the field has the declared default:
  \<open>User.is_active\<close> true, \<open>Driver.is_available\<close> true, \<open>Order.status\<close> PENDING,
  \<open>Order.payment_method\<close> cod, \<open>Order.total\<close> 0, \<open>Payment.status\<close> PENDING.
\<close>

theorem declared_defaults:
  "(User_init lx ku = Inr u \<and> map_of ku ''is_active'' = None \<longrightarrow> is_active u = True) \<and>
   (Driver_init lx kd = Inr dr \<and> map_of kd ''is_available'' = None \<longrightarrow>
      is_available dr = True) \<and>
   (Order_init lx ko = Inr ord \<and> map_of ko ''status'' = None \<longrightarrow>
      Order.status ord = ''PENDING'') \<and>
   (Order_init lx ko = Inr ord \<and> map_of ko ''payment_method'' = None \<longrightarrow>
      payment_method ord = ''cod'') \<and>
   (Order_init lx ko = Inr ord \<and> map_of ko ''total'' = None \<longrightarrow> total ord = 0) \<and>
   (Payment_init lx kp = Inr pay \<and> map_of kp ''status'' = None \<longrightarrow>
      Payment.status pay = ''PENDING'')"
  using User_default_fields[of lx ku u] Driver_default_fields[of lx kd dr]
    Order_default_fields[of lx ko ord] Payment_default_fields[of lx kp pay]
  by (simp add: User_init_def Driver_init_def Order_init_def Payment_init_def construct_Inr_iff)

theorem declared_defaults_witness:
  "User_init example_lax [(''name'', VStr ''Ann''), (''phone'', VStr ''555'')] =
     Inr example_user \<and>
   is_active example_user = True \<and>
   Driver_init example_lax [(''user_id'', VStr ''u2''), (''vehicle_type'', VStr ''Van'')] =
     Inr example_driver \<and>
   is_available example_driver = True \<and>
   Order_init example_lax example_order_body = Inr example_order \<and>
   Order.status example_order = ''PENDING'' \<and>
   payment_method example_order = ''cod'' \<and>
   total example_order = 0 \<and>
   Payment_init example_lax
     [(''order_id'', VStr ''o1''), (''amount'', VFloat (25 / 2)), (''method'', VStr ''card'')] =
     Inr example_payment \<and>
   Payment.status example_payment = ''PENDING''"
proof -
  let ?ku = "[(''name'', VStr ''Ann''), (''phone'', VStr ''555'')]"
  let ?kd = "[(''user_id'', VStr ''u2''), (''vehicle_type'', VStr ''Van'')]"
  let ?kp = "[(''order_id'', VStr ''o1''), (''amount'', VFloat (25 / 2)),
              (''method'', VStr ''card'')]"
  have u: "User_init example_lax ?ku = Inr example_user" by code_simp
  have d: "Driver_init example_lax ?kd = Inr example_driver" by code_simp
  have p: "Payment_init example_lax ?kp = Inr example_payment" by code_simp
  note o = example_order_init
  have absent: "map_of ?ku ''is_active'' = None" "map_of ?kd ''is_available'' = None"
    "map_of example_order_body ''status'' = None"
    "map_of example_order_body ''payment_method'' = None"
    "map_of example_order_body ''total'' = None"
    "map_of ?kp ''status'' = None"
    by (simp_all add: example_order_body_def)
  note th = declared_defaults[of example_lax ?ku example_user ?kd example_driver
      example_order_body example_order ?kp example_payment]
  from th u d o p absent
  have "is_active example_user = True" "is_available example_driver = True"
    "Order.status example_order = ''PENDING''" "payment_method example_order = ''cod''"
    "total example_order = 0" "Payment.status example_payment = ''PENDING''"
    by blast+
  with u d o p show ?thesis by blast
qed

text \<open>
  Claim C10. A \<open>User\<close> constructed without a \<open>role\<close> has the role \<open>customer\<close>.
\<close>

theorem User_role_default:
  "User_init lx kw = Inr u \<and> map_of kw ''role'' = None \<longrightarrow> role u = ''customer''"
  using User_default_fields[of lx kw u]
  by (simp add: User_init_def construct_Inr_iff)

theorem User_role_default_witness:
  "User_init example_lax
     [(''name'', VStr ''Bob''), (''phone'', VStr ''777''), (''email'', VStr ''bob@example.org''),
      (''is_active'', VBool False)] = Inr example_inactive_user \<and>
   role example_inactive_user = ''customer''"
proof -
  let ?kw = "[(''name'', VStr ''Bob''), (''phone'', VStr ''777''),
              (''email'', VStr ''bob@example.org''), (''is_active'', VBool False)]"
  have u: "User_init example_lax ?kw = Inr example_inactive_user" by code_simp
  have n: "map_of ?kw ''role'' = None" by simp
  from User_role_default[of example_lax ?kw example_inactive_user] u n
  have "role example_inactive_user = ''customer''" by blast
  with u show ?thesis by blast
qed

end
